theory Spec2Isabelle
  imports Main
begin

section \<open>Data model\<close>

text \<open>
  Python \<open>datetime\<close> values are points on a line of microseconds, \<open>timedelta\<close> values
  are distances on it. Only the order of time points and the addition of distances are
  used by the code.
\<close>

type_synonym datetime = int

definition timedelta_minutes :: "int \<Rightarrow> int" where
  "timedelta_minutes m = m * 60000000"

definition timedelta_days :: "int \<Rightarrow> int" where
  "timedelta_days d = d * 86400000000"

text \<open>
  A date in the MongoDB store is a count of milliseconds. The driver encodes a
  \<open>datetime\<close> that it sends (in a query or an update) by dropping what is below the
  millisecond, and decodes a stored date to the \<open>datetime\<close> of that millisecond.
\<close>

type_synonym bson_date = int

definition to_bson :: "datetime \<Rightarrow> bson_date" where
  "to_bson t = t div 1000"

definition from_bson :: "bson_date \<Rightarrow> datetime" where
  "from_bson b = b * 1000"

subsection \<open>reminders/models.py\<close>

text \<open>
  \<open>ReminderLog\<close>: one row of table \<open>reminder_logs\<close>. \<open>appointment_id\<close> is declared
  \<open>unique=True\<close>; \<open>reminder_sent\<close> defaults to \<open>False\<close>, \<open>reminder_sent_at\<close> is nullable.
\<close>

record ReminderLog =
  appointment_id :: string
  user_email :: string
  appointment_date :: datetime
  reminder_sent :: bool
  reminder_sent_at :: "datetime option"
  reminder_type :: string
  created_at :: datetime
  updated_at :: datetime

text \<open>
  \<open>EmailTemplate\<close>: one row of table \<open>email_templates\<close>, with
  \<open>unique_together = ['reminder_type', 'is_active']\<close>. Its \<open>reminder_type\<close> column is
  the field \<open>template_type\<close> here (the name is taken by \<open>ReminderLog\<close>).
\<close>

record EmailTemplate =
  name :: string
  subject :: string
  body_html :: string
  body_text :: string
  template_type :: string
  is_active :: bool

subsection \<open>Documents of the external MongoDB store\<close>

text \<open>
  An appointment document as the store holds it, with the keys the code reads. A key
  that a document may lack is an \<open>option\<close>; \<open>_id\<close> is the field \<open>doc_id\<close>.
\<close>

record appointment =
  doc_id :: string
  notificationEmail :: "string option"
  appointmentDate :: bson_date
  status :: string
  reminderSent :: "bool option"
  reminderSentAt :: "bson_date option"
  citizenId :: "string option"
  departmentId :: "string option"
  serviceId :: "string option"
  tokenNumber :: "string option"
  queuePosition :: "string option"

text \<open>A user, department or service document: its \<open>_id\<close> and its other keys.\<close>

type_synonym document = "string \<times> (string \<times> string) list"

subsection \<open>Values handed to and returned by library calls\<close>

record email =
  mail_subject :: string
  mail_message :: string
  mail_from_email :: string
  mail_recipient_list :: "string list"
  mail_html_message :: string

text \<open>The keyword arguments of \<open>str.format(**context)\<close> in \<open>send_reminder_email\<close>.\<close>

record format_context =
  ctx_user :: "document option"
  ctx_appointment :: appointment
  ctx_department :: "document option"
  ctx_service :: "document option"
  ctx_appointment_date :: datetime
  ctx_appointment_time :: string
  ctx_appointment_date_formatted :: string
  ctx_token_number :: string
  ctx_queue_position :: string

text \<open>A value of a result dictionary, and the dictionary as the list of its items.\<close>

datatype pyval = Str string | Num int

type_synonym pydict = "(string \<times> pyval) list"

text \<open>The arguments of one queued \<open>send_reminder_email\<close> task.\<close>

record task =
  task_appointment_id :: string
  task_user_email :: string
  task_appointment_date :: datetime
  task_appointment_data :: appointment

subsection \<open>Environment and state\<close>

text \<open>
  What the code reads from outside itself during one task. A library call that can raise
  has a field saying whether it does: the relational store (\<open>db_fault\<close>, with the
  message of the exception), reads and writes of the MongoDB store, \<open>str.format\<close>
  (\<open>None\<close> when it raises, as for a placeholder missing from the context), the
  email gateway (\<open>send_mail\<close> raises when it does not take the message), and
  \<open>.delay\<close> of a task.
\<close>

record env =
  now :: datetime
  utcnow :: datetime
  db_fault :: "string option"
  mongo_read_fault :: bool
  mongo_write_fault :: bool
  users :: "document list"
  departments :: "document list"
  services :: "document list"
  str_format :: "string \<Rightarrow> format_context \<Rightarrow> string option"
  strftime :: "string \<Rightarrow> datetime \<Rightarrow> string"
  smtp_accepts :: "email \<Rightarrow> bool"
  broker_accepts :: "task \<Rightarrow> bool"
  DEFAULT_FROM_EMAIL :: string

text \<open>
  An effect on the outside, in the order the code performs them: an email accepted by
  the gateway, a saved ledger row, and a request to set the \<open>reminderSent\<close> flag of an
  appointment document together with what \<open>mark_reminder_sent\<close> returned.
\<close>

datatype effect = Mail email | LedgerSave ReminderLog | MongoMark string bool

record state =
  reminder_logs :: "ReminderLog list"
  email_templates :: "EmailTemplate list"
  collection :: "appointment list"
  effects :: "effect list"

definition outbox :: "state \<Rightarrow> email list" where
  "outbox s = concat (map (\<lambda>e. case e of Mail m \<Rightarrow> [m] | _ \<Rightarrow> []) (effects s))"

section \<open>reminders/mongodb\_client.py\<close>

text \<open>
  \<open>get_appointments_for_reminder\<close>: the documents of the collection that match the
  query, in collection order; the empty list when the store raises. The two bounds of
  the query are encoded by the driver, and the store compares dates with them.
\<close>

definition reminder_query :: "bson_date \<Rightarrow> bson_date \<Rightarrow> appointment \<Rightarrow> bool" where
  "reminder_query reminder_time_start reminder_time_end d \<longleftrightarrow>
     (appointmentDate d \<ge> reminder_time_start \<and> appointmentDate d \<le> reminder_time_end)
     \<and> status d \<in> set [''waiting'', ''confirmed'', ''scheduled'']
     \<and> reminderSent d \<noteq> Some True"

definition get_appointments_for_reminder ::
  "env \<Rightarrow> int \<Rightarrow> appointment list \<Rightarrow> appointment list" where
  "get_appointments_for_reminder e minutes_before coll =
     (if mongo_read_fault e then []
      else
        let reminder_time_start = utcnow e + timedelta_minutes (minutes_before - 1);
            reminder_time_end = utcnow e + timedelta_minutes (minutes_before + 1)
        in filter (reminder_query (to_bson reminder_time_start) (to_bson reminder_time_end))
             coll)"

definition get_appointment_by_id ::
  "env \<Rightarrow> string \<Rightarrow> appointment list \<Rightarrow> appointment option" where
  "get_appointment_by_id e aid coll =
     (if mongo_read_fault e then None else find (\<lambda>d. doc_id d = aid) coll)"

text \<open>
  \<open>mark_reminder_sent\<close>: \<open>update_one\<close> changes the first document with this \<open>_id\<close>;
  the result is \<open>modified_count > 0\<close>, and \<open>False\<close> when the store raises. A document
  that already holds the same two values (the date as the store holds it, in
  milliseconds) is not counted as modified.
\<close>

fun update_one :: "string \<Rightarrow> bson_date \<Rightarrow> appointment list \<Rightarrow> appointment list \<times> nat" where
  "update_one aid t [] = ([], 0)"
| "update_one aid t (d # ds) =
     (if doc_id d = aid
      then (let d' = d\<lparr>reminderSent := Some True, reminderSentAt := Some t\<rparr>
            in (d' # ds, if d' = d then 0 else 1))
      else (let (ds', n) = update_one aid t ds in (d # ds', n)))"

definition mark_reminder_sent ::
  "env \<Rightarrow> string \<Rightarrow> appointment list \<Rightarrow> bool \<times> appointment list" where
  "mark_reminder_sent e aid coll =
     (if mongo_write_fault e then (False, coll)
      else (let (coll', modified_count) = update_one aid (to_bson (utcnow e)) coll
            in (modified_count > 0, coll')))"

definition find_one :: "string option \<Rightarrow> document list \<Rightarrow> document option" where
  "find_one key docs = (case key of None \<Rightarrow> None | Some k \<Rightarrow> find (\<lambda>d. fst d = k) docs)"

definition get_user_by_id :: "env \<Rightarrow> string option \<Rightarrow> document option" where
  "get_user_by_id e user_id = (if mongo_read_fault e then None else find_one user_id (users e))"

definition get_department_by_id :: "env \<Rightarrow> string option \<Rightarrow> document option" where
  "get_department_by_id e department_id =
     (if mongo_read_fault e then None else find_one department_id (departments e))"

definition get_service_by_id :: "env \<Rightarrow> string option \<Rightarrow> document option" where
  "get_service_by_id e service_id =
     (if mongo_read_fault e then None else find_one service_id (services e))"

section \<open>reminders/tasks.py\<close>

subsection \<open>cleanup\_old\_reminders\<close>

text \<open>
  \<open>ReminderLog.objects.filter(created_at__lt=cutoff_date).delete()[0]\<close> removes the
  matching rows and gives their number (no other table refers to \<open>ReminderLog\<close>, so
  nothing cascades).
\<close>

definition cleanup_old_reminders :: "env \<Rightarrow> state \<Rightarrow> pydict \<times> state" where
  "cleanup_old_reminders e s =
     (case db_fault e of
        Some msg \<Rightarrow> ([(''status'', Str ''error''), (''message'', Str msg)], s)
      | None \<Rightarrow>
          let cutoff_date = now e - timedelta_days 30;
              deleted_count = length (filter (\<lambda>r. created_at r < cutoff_date) (reminder_logs s))
          in ([(''status'', Str ''success''), (''deleted_count'', Num (int deleted_count))],
              s\<lparr>reminder_logs := filter (\<lambda>r. \<not> created_at r < cutoff_date) (reminder_logs s)\<rparr>))"

subsection \<open>Operations of the ORM on the two tables\<close>

text \<open>
  \<open>ReminderLog.objects.get_or_create(appointment_id=..., defaults=...)\<close>: the row
  with this \<open>appointment_id\<close> if there is one, else a new row built from the defaults
  and the defaults of the model. The uniqueness constraint on \<open>appointment_id\<close> makes
  the call one indivisible insert-if-absent. \<open>auto_now_add\<close> and \<open>auto_now\<close> read the
  clock of the environment.
\<close>

definition new_reminder_log :: "env \<Rightarrow> string \<Rightarrow> string \<Rightarrow> datetime \<Rightarrow> ReminderLog" where
  "new_reminder_log e aid email date =
     \<lparr>appointment_id = aid, user_email = email, appointment_date = date,
      reminder_sent = False, reminder_sent_at = None, reminder_type = ''15min'',
      created_at = now e, updated_at = now e\<rparr>"

definition lookup_log :: "string \<Rightarrow> ReminderLog list \<Rightarrow> ReminderLog option" where
  "lookup_log aid logs = find (\<lambda>r. appointment_id r = aid) logs"

definition get_or_create ::
  "env \<Rightarrow> string \<Rightarrow> string \<Rightarrow> datetime \<Rightarrow> ReminderLog list
     \<Rightarrow> (ReminderLog \<times> bool) \<times> ReminderLog list" where
  "get_or_create e aid email date logs =
     (case lookup_log aid logs of
        Some r \<Rightarrow> ((r, False), logs)
      | None \<Rightarrow>
          (let r = new_reminder_log e aid email date
           in ((r, True), logs @ [r])))"

text \<open>
  \<open>reminder_log.save()\<close> writes every field of the object over its row and inserts
  the object when its row is gone; \<open>auto_now\<close> stamps \<open>updated_at\<close> on every save and
  \<open>auto_now_add\<close> stamps \<open>created_at\<close> on an insert. Rows are told apart by the unique
  \<open>appointment_id\<close> here; the primary key of the table is not modelled.
\<close>

definition save :: "env \<Rightarrow> ReminderLog \<Rightarrow> ReminderLog list \<Rightarrow> ReminderLog list" where
  "save e r logs =
     (let r' = r\<lparr>updated_at := now e\<rparr>
      in if lookup_log (appointment_id r) logs = None then logs @ [r'\<lparr>created_at := now e\<rparr>]
         else map (\<lambda>x. if appointment_id x = appointment_id r then r' else x) logs)"

datatype db_error = IntegrityError

text \<open>
  \<open>EmailTemplate.objects.create(...)\<close> under \<open>unique_together\<close>: the insert raises
  when a row with the same \<open>(reminder_type, is_active)\<close> pair exists.
\<close>

definition create_template ::
  "EmailTemplate \<Rightarrow> EmailTemplate list \<Rightarrow> db_error + EmailTemplate list" where
  "create_template t tpls =
     (if list_ex (\<lambda>x. template_type x = template_type t \<and> is_active x = is_active t) tpls
      then Inl IntegrityError else Inr (tpls @ [t]))"

subsection \<open>create\_default\_email\_template\<close>

definition default_subject :: string where
  \<open>default_subject =
     ''Reminder: Your appointment is in 15 minutes - {token_number}''\<close>

definition default_body_text :: string where
  \<open>default_body_text =
     ''\<newline>'' @
     ''Dear {user[firstName]} {user[lastName]},\<newline>'' @
     ''\<newline>'' @
     ''This is a reminder that you have an appointment scheduled for {appointment_date_formatted} at {appointment_time}.\<newline>'' @
     ''\<newline>'' @
     ''Appointment Details:\<newline>'' @
     ''- Token Number: {token_number}\<newline>'' @
     ''- Department: {department[name]}\<newline>'' @
     ''- Service: {service[name]}\<newline>'' @
     ''- Queue Position: {queue_position}\<newline>'' @
     ''\<newline>'' @
     ''Please arrive at least 5 minutes before your scheduled time.\<newline>'' @
     ''\<newline>'' @
     ''Thank you for using SmartQueue!\<newline>'' @
     ''\<newline>'' @
     ''Best regards,\<newline>'' @
     ''SmartQueue Team\<newline>'' @
     ''        ''\<close>

definition default_body_html :: string where
  \<open>default_body_html =
     ''\<newline>'' @
     ''<!DOCTYPE html>\<newline>'' @
     ''<html>\<newline>'' @
     ''<head>\<newline>'' @
     ''    <meta charset="utf-8">\<newline>'' @
     ''    <title>Appointment Reminder</title>\<newline>'' @
     ''    <style>\<newline>'' @
     ''        body { font-family: Arial, sans-serif; line-height: 1.6; color: #333; }\<newline>'' @
     ''        .container { max-width: 600px; margin: 0 auto; padding: 20px; }\<newline>'' @
     ''        .header { background-color: #2563eb; color: white; padding: 20px; text-align: center; }\<newline>'' @
     ''        .content { padding: 20px; background-color: #f8fafc; }\<newline>'' @
     ''        .appointment-details { background-color: white; padding: 15px; border-radius: 5px; margin: 15px 0; }\<newline>'' @
     ''        .footer { text-align: center; padding: 20px; color: #666; }\<newline>'' @
     ''        .highlight { color: #2563eb; font-weight: bold; }\<newline>'' @
     ''    </style>\<newline>'' @
     ''</head>\<newline>'' @
     ''<body>\<newline>'' @
     ''    <div class="container">\<newline>'' @
     ''        <div class="header">\<newline>'' @
     ''            <h1>Appointment Reminder</h1>\<newline>'' @
     ''        </div>\<newline>'' @
     ''        <div class="content">\<newline>'' @
     ''            <p>Dear {user[firstName]} {user[lastName]},</p>\<newline>'' @
     ''            <p>This is a reminder that you have an appointment scheduled for <span class="highlight">{appointment_date_formatted} at {appointment_time}</span>.</p>\<newline>'' @
     ''            \<newline>'' @
     ''            <div class="appointment-details">\<newline>'' @
     ''                <h3>Appointment Details:</h3>\<newline>'' @
     ''                <ul>\<newline>'' @
     ''                    <li><strong>Token Number:</strong> {token_number}</li>\<newline>'' @
     ''                    <li><strong>Department:</strong> {department[name]}</li>\<newline>'' @
     ''                    <li><strong>Service:</strong> {service[name]}</li>\<newline>'' @
     ''                    <li><strong>Queue Position:</strong> {queue_position}</li>\<newline>'' @
     ''                </ul>\<newline>'' @
     ''            </div>\<newline>'' @
     ''            \<newline>'' @
     ''            <p><strong>Please arrive at least 5 minutes before your scheduled time.</strong></p>\<newline>'' @
     ''            <p>Thank you for using SmartQueue!</p>\<newline>'' @
     ''        </div>\<newline>'' @
     ''        <div class="footer">\<newline>'' @
     ''            <p>Best regards,<br>SmartQueue Team</p>\<newline>'' @
     ''        </div>\<newline>'' @
     ''    </div>\<newline>'' @
     ''</body>\<newline>'' @
     ''</html>\<newline>'' @
     ''        ''\<close>

definition create_default_email_template ::
  "EmailTemplate list \<Rightarrow> db_error + (EmailTemplate \<times> EmailTemplate list)" where
  "create_default_email_template tpls =
     (let template = \<lparr>name = ''Default 15-Minute Reminder'', subject = default_subject,
                       body_html = default_body_html, body_text = default_body_text,
                       template_type = ''15min'', is_active = True\<rparr>
      in case create_template template tpls of
           Inl err \<Rightarrow> Inl err
         | Inr tpls' \<Rightarrow> Inr (template, tpls'))"

subsection \<open>send\_reminder\_email\<close>

text \<open>
  \<open>EmailTemplate.objects.filter(reminder_type='15min', is_active=True).first()\<close>, and
  the fallback when it gives \<open>None\<close>.
\<close>

definition active_template :: "EmailTemplate list \<Rightarrow> EmailTemplate option" where
  "active_template tpls = find (\<lambda>t. template_type t = ''15min'' \<and> is_active t) tpls"

definition resolve_template ::
  "EmailTemplate list \<Rightarrow> db_error + (EmailTemplate \<times> EmailTemplate list)" where
  "resolve_template tpls =
     (case active_template tpls of
        Some template \<Rightarrow> Inr (template, tpls)
      | None \<Rightarrow> create_default_email_template tpls)"

definition build_context :: "env \<Rightarrow> datetime \<Rightarrow> appointment \<Rightarrow> format_context" where
  "build_context e date appointment_data =
     \<lparr>ctx_user = get_user_by_id e (citizenId appointment_data),
      ctx_appointment = appointment_data,
      ctx_department = get_department_by_id e (departmentId appointment_data),
      ctx_service = get_service_by_id e (serviceId appointment_data),
      ctx_appointment_date = date,
      ctx_appointment_time = strftime e ''%I:%M %p'' date,
      ctx_appointment_date_formatted = strftime e ''%B %d, %Y'' date,
      ctx_token_number = (case tokenNumber appointment_data of None \<Rightarrow> ''N/A'' | Some v \<Rightarrow> v),
      ctx_queue_position =
        (case queuePosition appointment_data of None \<Rightarrow> ''N/A'' | Some v \<Rightarrow> v)\<rparr>"

text \<open>
  The three \<open>template.*.format(**context)\<close> calls, in source order; the first that
  raises ends the attempt.
\<close>

definition render ::
  "env \<Rightarrow> EmailTemplate \<Rightarrow> format_context \<Rightarrow> (string \<times> string \<times> string) option" where
  "render e template ctx =
     (case str_format e (subject template) ctx of
        None \<Rightarrow> None
      | Some subj \<Rightarrow>
          (case str_format e (body_text template) ctx of
             None \<Rightarrow> None
           | Some message \<Rightarrow>
               (case str_format e (body_html template) ctx of
                  None \<Rightarrow> None
                | Some html_message \<Rightarrow> Some (subj, message, html_message))))"

definition make_email :: "env \<Rightarrow> string \<Rightarrow> string \<times> string \<times> string \<Rightarrow> email" where
  "make_email e user_email_arg rendered =
     (case rendered of (subj, message, html_message) \<Rightarrow>
        \<lparr>mail_subject = subj, mail_message = message,
         mail_from_email = DEFAULT_FROM_EMAIL e, mail_recipient_list = [user_email_arg],
         mail_html_message = html_message\<rparr>)"

text \<open>
  \<open>send_mail(..., fail_silently=False)\<close> returns the number of messages sent. A
  message none of whose recipient addresses is non-empty is not handed to the gateway:
  the call returns 0 and does not raise. Otherwise the message goes to the gateway, and
  the call returns 1 or raises.
\<close>

definition recipients :: "email \<Rightarrow> string list" where
  "recipients m = filter (\<lambda>a. a \<noteq> []) (mail_recipient_list m)"

definition send_mail :: "env \<Rightarrow> email \<Rightarrow> nat option" where
  "send_mail e m =
     (if recipients m = [] then Some 0
      else if smtp_accepts e m then Some 1 else None)"

text \<open>
  The body of \<open>send_reminder_email\<close>; every exception inside it is caught by the one
  handler, which returns \<open>False\<close> and undoes nothing. The function does not look at the
  number that \<open>send_mail\<close> returns; the trace of effects holds the email only when it
  went to the gateway.
\<close>

definition send_reminder_email :: "env \<Rightarrow> task \<Rightarrow> state \<Rightarrow> bool \<times> state" where
  "send_reminder_email e t s =
     (if db_fault e \<noteq> None then (False, s)
      else
        let ((reminder_log, created), logs1) =
              get_or_create e (task_appointment_id t) (task_user_email t)
                (task_appointment_date t) (reminder_logs s);
            s1 = s\<lparr>reminder_logs := logs1\<rparr>
        in if \<not> created \<and> reminder_sent reminder_log then (True, s1)
           else
             let ctx = build_context e (task_appointment_date t) (task_appointment_data t)
             in case resolve_template (email_templates s1) of
                  Inl err \<Rightarrow> (False, s1)
                | Inr (template, tpls) \<Rightarrow>
                    (let s2 = s1\<lparr>email_templates := tpls\<rparr>
                     in case render e template ctx of
                          None \<Rightarrow> (False, s2)
                        | Some rendered \<Rightarrow>
                            (let m = make_email e (task_user_email t) rendered
                             in case send_mail e m of
                                  None \<Rightarrow> (False, s2)
                                | Some sent_count \<Rightarrow>
                                    (let s3 = s2\<lparr>effects := effects s2
                                                     @ replicate sent_count (Mail m)\<rparr>;
                                         reminder_log' = reminder_log\<lparr>reminder_sent := True,
                                                           reminder_sent_at := Some (now e)\<rparr>;
                                         s4 = s3\<lparr>reminder_logs :=
                                                    save e reminder_log' (reminder_logs s3),
                                                  effects := effects s3
                                                    @ [LedgerSave reminder_log']\<rparr>;
                                         (ok, coll) = mark_reminder_sent e (task_appointment_id t)
                                                        (collection s4);
                                         s5 = s4\<lparr>collection := coll,
                                                  effects := effects s4
                                                    @ [MongoMark (task_appointment_id t) ok]\<rparr>
                                     in (True, s5)))))"

subsection \<open>check\_and\_send\_reminders, send\_custom\_reminder\<close>

definition task_of :: "appointment \<Rightarrow> task" where
  "task_of a =
     \<lparr>task_appointment_id = doc_id a,
      task_user_email = (case notificationEmail a of None \<Rightarrow> [] | Some v \<Rightarrow> v),
      task_appointment_date = from_bson (appointmentDate a),
      task_appointment_data = a\<rparr>"

text \<open>
  The \<open>for\<close> loop of \<open>check_and_send_reminders\<close>, with its counter and the tasks put
  on the queue so far. \<open>.delay\<close> returns a result handle, which is truthy; when it
  raises, the handler of the loop body logs and continues with the next appointment.
\<close>

fun queue_reminders :: "env \<Rightarrow> appointment list \<Rightarrow> nat \<Rightarrow> task list \<Rightarrow> nat \<times> task list" where
  "queue_reminders e [] reminders_sent queued = (reminders_sent, queued)"
| "queue_reminders e (a # appointments) reminders_sent queued =
     (if broker_accepts e (task_of a)
      then queue_reminders e appointments (reminders_sent + 1) (queued @ [task_of a])
      else queue_reminders e appointments reminders_sent queued)"

definition check_and_send_reminders :: "env \<Rightarrow> state \<Rightarrow> pydict \<times> task list" where
  "check_and_send_reminders e s =
     (let appointments = get_appointments_for_reminder e 15 (collection s)
      in if appointments = [] then ([(''status'', Str ''success''), (''reminders_sent'', Num 0)], [])
         else
           let (reminders_sent, queued) = queue_reminders e appointments 0 []
           in ([(''status'', Str ''success''), (''reminders_sent'', Num (int reminders_sent))],
               queued))"

text \<open>
  \<open>send_custom_reminder\<close>: \<open>None\<close> is the return value \<open>False\<close>, \<open>Some t\<close> the handle
  of the queued task \<open>t\<close>.
\<close>

definition send_custom_reminder :: "env \<Rightarrow> string \<Rightarrow> string \<Rightarrow> state \<Rightarrow> task option" where
  "send_custom_reminder e aid reminder_type_arg s =
     (case get_appointment_by_id e aid (collection s) of
        None \<Rightarrow> None
      | Some a \<Rightarrow>
          (let t = \<lparr>task_appointment_id = aid,
                    task_user_email = (case notificationEmail a of None \<Rightarrow> [] | Some v \<Rightarrow> v),
                    task_appointment_date = from_bson (appointmentDate a),
                    task_appointment_data = a\<rparr>
           in if broker_accepts e t then Some t else None))"

text \<open>A worker taking the queued tasks one after the other.\<close>

fun run_tasks :: "env \<Rightarrow> task list \<Rightarrow> state \<Rightarrow> bool list \<times> state" where
  "run_tasks e [] s = ([], s)"
| "run_tasks e (t # ts) s =
     (let (r, s') = send_reminder_email e t s;
          (rs, s'') = run_tasks e ts s'
      in (r # rs, s''))"

section \<open>Workers running concurrently\<close>

text \<open>
  Several workers run \<open>send_reminder_email\<close> against the same stores. Each access to a
  store and each call of the gateway is one indivisible step; between two steps of one
  worker any other worker may move. A worker is at a point of the function body and
  holds its local variables \<open>reminder_log\<close> and \<open>template\<close>:
  \<^item> \<open>Start\<close>: before \<open>get_or_create\<close>;
  \<^item> \<open>Claimed\<close>: past the already-sent test, before the template query;
  \<^item> \<open>NoTemplate\<close>: the query gave \<open>None\<close>, before \<open>create_default_email_template\<close>;
  \<^item> \<open>Resolved\<close>: before rendering and \<open>send_mail\<close>;
  \<^item> \<open>Mailed\<close>: before \<open>reminder_log.save()\<close>;
  \<^item> \<open>Saved\<close>: before \<open>mark_reminder_sent\<close>;
  \<^item> \<open>Done\<close>: returned, with the return value.
  The lookups of user, department and service read collections that nothing here
  writes, so the context is built where it is used, at the rendering step. Only the
  workers move: no row is deleted while they run.
\<close>

datatype pc =
    Start
  | Claimed ReminderLog
  | NoTemplate ReminderLog
  | Resolved ReminderLog EmailTemplate
  | Mailed ReminderLog
  | Saved
  | Done bool

fun worker_step :: "env \<Rightarrow> task \<Rightarrow> pc \<Rightarrow> state \<Rightarrow> pc \<times> state" where
  "worker_step e t Start s =
     (if db_fault e \<noteq> None then (Done False, s)
      else
        let ((reminder_log, created), logs1) =
              get_or_create e (task_appointment_id t) (task_user_email t)
                (task_appointment_date t) (reminder_logs s);
            s1 = s\<lparr>reminder_logs := logs1\<rparr>
        in if \<not> created \<and> reminder_sent reminder_log then (Done True, s1)
           else (Claimed reminder_log, s1))"
| "worker_step e t (Claimed reminder_log) s =
     (case active_template (email_templates s) of
        Some template \<Rightarrow> (Resolved reminder_log template, s)
      | None \<Rightarrow> (NoTemplate reminder_log, s))"
| "worker_step e t (NoTemplate reminder_log) s =
     (case create_default_email_template (email_templates s) of
        Inl err \<Rightarrow> (Done False, s)
      | Inr (template, tpls) \<Rightarrow> (Resolved reminder_log template, s\<lparr>email_templates := tpls\<rparr>))"
| "worker_step e t (Resolved reminder_log template) s =
     (case render e template
             (build_context e (task_appointment_date t) (task_appointment_data t)) of
        None \<Rightarrow> (Done False, s)
      | Some rendered \<Rightarrow>
          (let m = make_email e (task_user_email t) rendered
           in case send_mail e m of
                None \<Rightarrow> (Done False, s)
              | Some sent_count \<Rightarrow>
                  (Mailed reminder_log,
                   s\<lparr>effects := effects s @ replicate sent_count (Mail m)\<rparr>)))"
| "worker_step e t (Mailed reminder_log) s =
     (let reminder_log' = reminder_log\<lparr>reminder_sent := True,
                            reminder_sent_at := Some (now e)\<rparr>
      in (Saved, s\<lparr>reminder_logs := save e reminder_log' (reminder_logs s),
                   effects := effects s @ [LedgerSave reminder_log']\<rparr>))"
| "worker_step e t Saved s =
     (let (ok, coll) = mark_reminder_sent e (task_appointment_id t) (collection s)
      in (Done True, s\<lparr>collection := coll,
                       effects := effects s @ [MongoMark (task_appointment_id t) ok]\<rparr>))"
| "worker_step e t (Done b) s = (Done b, s)"

text \<open>One worker alone, for a number of steps.\<close>

fun run_worker :: "env \<Rightarrow> task \<Rightarrow> nat \<Rightarrow> pc \<times> state \<Rightarrow> pc \<times> state" where
  "run_worker e t 0 c = c"
| "run_worker e t (Suc n) c = run_worker e t n (worker_step e t (fst c) (snd c))"

text \<open>
  A configuration is the workers (each with its task and its point) and the shared
  state. A schedule names, step by step, the worker that moves; a name that is no worker
  leaves the configuration as it is.
\<close>

type_synonym config = "(task \<times> pc) list \<times> state"

definition sched_step :: "env \<Rightarrow> nat \<Rightarrow> config \<Rightarrow> config" where
  "sched_step e i c =
     (case c of (ws, s) \<Rightarrow>
        if i < length ws
        then (case ws ! i of (t, p) \<Rightarrow>
                (case worker_step e t p s of (p', s') \<Rightarrow> (ws[i := (t, p')], s')))
        else (ws, s))"

fun run_schedule :: "env \<Rightarrow> nat list \<Rightarrow> config \<Rightarrow> config" where
  "run_schedule e [] c = c"
| "run_schedule e (i # sched) c = run_schedule e sched (sched_step e i c)"

definition start_config :: "task list \<Rightarrow> state \<Rightarrow> config" where
  "start_config ts s = (map (\<lambda>t. (t, Start)) ts, s)"

section \<open>Well-formed tables\<close>

text \<open>The uniqueness constraints of the two tables, as the database keeps them.\<close>

definition unique_appointment_id :: "ReminderLog list \<Rightarrow> bool" where
  "unique_appointment_id logs \<longleftrightarrow> distinct (map appointment_id logs)"

definition unique_together :: "EmailTemplate list \<Rightarrow> bool" where
  "unique_together tpls \<longleftrightarrow> distinct (map (\<lambda>t. (template_type t, is_active t)) tpls)"

text \<open>The rows of a ledger that are in state Sent for an appointment and a category.\<close>

definition sent_records :: "string \<Rightarrow> string \<Rightarrow> ReminderLog list \<Rightarrow> ReminderLog list" where
  "sent_records aid category logs =
     filter (\<lambda>r. appointment_id r = aid \<and> reminder_type r = category \<and> reminder_sent r) logs"

definition active_templates :: "string \<Rightarrow> EmailTemplate list \<Rightarrow> EmailTemplate list" where
  "active_templates category tpls =
     filter (\<lambda>t. template_type t = category \<and> is_active t) tpls"

section \<open>Observations on a run\<close>

text \<open>
  A worker takes a row to state Sent by the save at the end of \<open>send_reminder_email\<close>.
  The transitions to Sent for an appointment and a category in a trace of effects are its
  saves of such rows.
\<close>

fun is_sent_transition :: "string \<Rightarrow> string \<Rightarrow> effect \<Rightarrow> bool" where
  "is_sent_transition aid category (LedgerSave r) =
     (appointment_id r = aid \<and> reminder_type r = category \<and> reminder_sent r)"
| "is_sent_transition aid category (Mail m) = False"
| "is_sent_transition aid category (MongoMark a ok) = False"

definition sent_transitions :: "string \<Rightarrow> string \<Rightarrow> effect list \<Rightarrow> effect list" where
  "sent_transitions aid category effs = filter (is_sent_transition aid category) effs"

definition row_is_sent :: "string \<Rightarrow> ReminderLog list \<Rightarrow> bool" where
  "row_is_sent aid logs =
     (case lookup_log aid logs of None \<Rightarrow> False | Some r \<Rightarrow> reminder_sent r)"

text \<open>The document of an appointment in the collection.\<close>

definition lookup_appointment :: "string \<Rightarrow> appointment list \<Rightarrow> appointment option" where
  "lookup_appointment aid coll = find (\<lambda>d. doc_id d = aid) coll"

section \<open>Concrete inputs\<close>

text \<open>
  \<open>str.format\<close> returns a string that holds no brace as it is, and raises
  \<open>KeyError\<close> on a replacement field whose name is no key of the context. The templates
  of the examples below are of these two kinds only; on them \<open>format_without_fields\<close> is
  \<open>str.format\<close> with the context of \<open>send_reminder_email\<close>, which has no key
  \<open>nickname\<close>.
\<close>

definition format_without_fields :: "string \<Rightarrow> format_context \<Rightarrow> string option" where
  "format_without_fields tpl ctx =
     (if list_ex (\<lambda>c. c = CHR ''{'' \<or> c = CHR ''}'') tpl then None else Some tpl)"

text \<open>
  An environment in which nothing fails, at day 100 of the time line. No example
  template that renders has a placeholder, so the value of \<open>strftime\<close> reaches no
  email.
\<close>

definition example_env :: env where
  "example_env =
     \<lparr>now = 8640000000000, utcnow = 8640000000000, db_fault = None,
      mongo_read_fault = False, mongo_write_fault = False,
      users = [], departments = [], services = [],
      str_format = format_without_fields, strftime = (\<lambda>f d. f),
      smtp_accepts = (\<lambda>m. True), broker_accepts = (\<lambda>t. True),
      DEFAULT_FROM_EMAIL = ''noreply@smartqueue.example''\<rparr>"

text \<open>The same environment with a gateway that refuses every email.\<close>

definition refusing_env :: env where
  "refusing_env = example_env\<lparr>smtp_accepts := (\<lambda>m. False)\<rparr>"

text \<open>The same environment with a MongoDB store that refuses every write.\<close>

definition readonly_env :: env where
  "readonly_env = example_env\<lparr>mongo_write_fault := True\<rparr>"

text \<open>The same environment half a millisecond later.\<close>

definition later_env :: env where
  "later_env = example_env\<lparr>utcnow := 8640000000500\<rparr>"

definition example_template :: EmailTemplate where
  "example_template =
     \<lparr>name = ''Plain reminder'', subject = ''Appointment reminder'',
      body_html = ''<p>Your appointment is in 15 minutes.</p>'',
      body_text = ''Your appointment is in 15 minutes.'',
      template_type = ''15min'', is_active = True\<rparr>"

definition broken_template :: EmailTemplate where
  "broken_template = example_template\<lparr>subject := ''Reminder for {nickname}''\<rparr>"

definition example_email :: email where
  "example_email =
     \<lparr>mail_subject = ''Appointment reminder'',
      mail_message = ''Your appointment is in 15 minutes.'',
      mail_from_email = ''noreply@smartqueue.example'',
      mail_recipient_list = [''u@x.com''],
      mail_html_message = ''<p>Your appointment is in 15 minutes.</p>''\<rparr>"

text \<open>Appointment \<open>a1\<close>, due 15 minutes after the time of \<open>example_env\<close>.\<close>

definition example_appointment :: appointment where
  "example_appointment =
     \<lparr>doc_id = ''a1'', notificationEmail = Some ''u@x.com'',
      appointmentDate = 8640900000, status = ''waiting'', reminderSent = None,
      reminderSentAt = None, citizenId = None, departmentId = None, serviceId = None,
      tokenNumber = Some ''T-7'', queuePosition = None\<rparr>"

definition example_task :: task where
  "example_task = task_of example_appointment"

text \<open>The same appointment without a notification address.\<close>

definition silent_appointment :: appointment where
  "silent_appointment = example_appointment\<lparr>notificationEmail := None\<rparr>"

definition silent_task :: task where
  "silent_task = task_of silent_appointment"

text \<open>
  An appointment 14 minutes after the time of \<open>example_env\<close>, which is half a
  millisecond less than 14 minutes after the time of \<open>later_env\<close>.
\<close>

definition early_appointment :: appointment where
  "early_appointment = example_appointment\<lparr>doc_id := ''a0'', appointmentDate := 8640840000\<rparr>"

definition example_log :: "string \<Rightarrow> bool \<Rightarrow> datetime \<Rightarrow> ReminderLog" where
  "example_log aid sent created =
     \<lparr>appointment_id = aid, user_email = ''u@x.com'', appointment_date = 8640900000000,
      reminder_sent = sent, reminder_sent_at = (if sent then Some created else None),
      reminder_type = ''15min'', created_at = created, updated_at = created\<rparr>"

text \<open>A fresh system, and one whose ledger holds a row for \<open>a1\<close> in the given state.\<close>

definition example_state :: state where
  "example_state =
     \<lparr>reminder_logs = [], email_templates = [example_template],
      collection = [example_appointment], effects = []\<rparr>"

definition ledger_state :: "bool \<Rightarrow> state" where
  "ledger_state sent = example_state\<lparr>reminder_logs := [example_log ''a1'' sent 8640000000000]\<rparr>"

text \<open>
  A ledger around the retention boundary of \<open>example_env\<close>: rows created 30 days and
  one second ago (one Claimed, one Sent), exactly 30 days ago, and 30 days less one
  second ago.
\<close>

definition sweep_state :: state where
  "sweep_state =
     example_state\<lparr>reminder_logs :=
       [example_log ''old-claimed'' False 6047999000000,
        example_log ''old-sent'' True 6047999000000,
        example_log ''boundary'' False 6048000000000,
        example_log ''young'' True 6048001000000]\<rparr>"

text \<open>
  A collection around the window of \<open>example_env\<close>: documents at the two ends of the
  window, one millisecond outside each end, one of a status that is not pending, and one
  whose flag is set.
\<close>

definition window_collection :: "appointment list" where
  "window_collection =
     [example_appointment\<lparr>doc_id := ''start'', appointmentDate := 8640840000\<rparr>,
      example_appointment\<lparr>doc_id := ''end'', appointmentDate := 8640960000,
                           status := ''scheduled'', reminderSent := Some False\<rparr>,
      example_appointment\<lparr>doc_id := ''early'', appointmentDate := 8640839999\<rparr>,
      example_appointment\<lparr>doc_id := ''late'', appointmentDate := 8640960001\<rparr>,
      example_appointment\<lparr>doc_id := ''done'', status := ''completed''\<rparr>,
      example_appointment\<lparr>doc_id := ''flagged'', reminderSent := Some True\<rparr>]"

section \<open>Properties\<close>

subsection \<open>Lookups in the ledger\<close>

lemma lookup_log_append:
  "lookup_log aid (xs @ ys) = (case lookup_log aid xs of Some r \<Rightarrow> Some r | None \<Rightarrow> lookup_log aid ys)"
  by (induction xs) (simp_all add: lookup_log_def)

lemma lookup_log_single:
  "lookup_log aid [r] = (if appointment_id r = aid then Some r else None)"
  by (simp add: lookup_log_def)

lemma lookup_log_Some_id: "lookup_log aid logs = Some r \<Longrightarrow> appointment_id r = aid \<and> r \<in> set logs"
  by (auto simp: lookup_log_def find_Some_iff)

lemma lookup_log_None: "lookup_log aid logs = None \<longleftrightarrow> aid \<notin> set (map appointment_id logs)"
  by (auto simp: lookup_log_def find_None_iff)

lemma get_or_create_found:
  "lookup_log aid logs = Some r \<Longrightarrow> get_or_create e aid em d logs = ((r, False), logs)"
  by (simp add: get_or_create_def)

lemma get_or_create_new:
  "lookup_log aid logs = None \<Longrightarrow>
     get_or_create e aid em d logs =
       ((new_reminder_log e aid em d, True), logs @ [new_reminder_log e aid em d])"
  by (simp add: get_or_create_def Let_def)

lemma new_reminder_log_id [simp]: "appointment_id (new_reminder_log e aid em d) = aid"
  by (simp add: new_reminder_log_def)

lemma get_or_create_lookup:
  "get_or_create e aid em d logs = ((r, created), logs1) \<Longrightarrow> lookup_log aid logs1 = Some r"
  by (cases "lookup_log aid logs")
     (auto simp: get_or_create_found get_or_create_new lookup_log_append lookup_log_single)

lemma get_or_create_row_id:
  "get_or_create e aid em d logs = ((r, created), logs1) \<Longrightarrow> appointment_id r = aid"
  by (drule get_or_create_lookup) (simp add: lookup_log_Some_id)

lemma get_or_create_unique:
  "unique_appointment_id logs \<Longrightarrow> unique_appointment_id (snd (get_or_create e aid em d logs))"
  by (cases "lookup_log aid logs")
     (auto simp: get_or_create_found get_or_create_new unique_appointment_id_def lookup_log_None)

lemma get_or_create_keeps_rows:
  "x \<in> set logs \<Longrightarrow> x \<in> set (snd (get_or_create e aid em d logs))"
  by (cases "lookup_log aid logs") (auto simp: get_or_create_def Let_def)

lemma save_ids: "map appointment_id (save e r logs) =
   (if lookup_log (appointment_id r) logs = None then map appointment_id logs @ [appointment_id r]
    else map appointment_id logs)"
  by (auto simp: save_def Let_def intro!: map_idI)

lemma save_unique: "unique_appointment_id logs \<Longrightarrow> unique_appointment_id (save e r logs)"
  by (auto simp: unique_appointment_id_def save_ids lookup_log_None)

lemma lookup_map_replace:
  "lookup_log (appointment_id r') logs = Some x \<Longrightarrow>
     lookup_log (appointment_id r')
       (map (\<lambda>x. if appointment_id x = appointment_id r' then r' else x) logs) = Some r'"
  unfolding lookup_log_def by (induction logs) (auto split: if_splits)

lemma lookup_save_existing:
  "lookup_log (appointment_id r) logs = Some x \<Longrightarrow>
     lookup_log (appointment_id r) (save e r logs) = Some (r\<lparr>updated_at := now e\<rparr>)"
  using lookup_map_replace [of "r\<lparr>updated_at := now e\<rparr>" logs x]
  by (simp add: save_def Let_def)

lemma lookup_save:
  "\<exists>y. lookup_log (appointment_id r) (save e r logs) = Some y
       \<and> appointment_id y = appointment_id r \<and> reminder_sent y = reminder_sent r
       \<and> reminder_sent_at y = reminder_sent_at r \<and> reminder_type y = reminder_type r"
proof (cases "lookup_log (appointment_id r) logs")
  case None
  then show ?thesis by (simp add: save_def Let_def lookup_log_append lookup_log_single)
next
  case (Some x)
  then show ?thesis by (simp add: lookup_save_existing)
qed

lemma lookup_save_other:
  "aid \<noteq> appointment_id r \<Longrightarrow> lookup_log aid (save e r logs) = lookup_log aid logs"
proof -
  assume ne: "aid \<noteq> appointment_id r"
  have "find (\<lambda>x. appointment_id x = aid)
          (map (\<lambda>x. if appointment_id x = appointment_id r then r\<lparr>updated_at := now e\<rparr> else x) logs)
        = find (\<lambda>x. appointment_id x = aid) logs"
    using ne by (induction logs) auto
  then have "lookup_log aid
          (map (\<lambda>x. if appointment_id x = appointment_id r then r\<lparr>updated_at := now e\<rparr> else x) logs)
        = lookup_log aid logs"
    by (simp add: lookup_log_def)
  with ne show ?thesis
    by (auto simp: save_def Let_def lookup_log_append lookup_log_single split: option.splits)
qed

lemma save_keeps_sent:
  assumes "x \<in> set logs" "reminder_sent x" "reminder_sent r"
  shows "\<exists>y \<in> set (save e r logs). appointment_id y = appointment_id x \<and> reminder_sent y"
proof (cases "appointment_id x = appointment_id r")
  case True
  from lookup_save [of r e logs] obtain y where
    y: "lookup_log (appointment_id r) (save e r logs) = Some y"
       "appointment_id y = appointment_id r" "reminder_sent y = reminder_sent r"
    by blast
  from y(1) have "y \<in> set (save e r logs)" by (simp add: lookup_log_Some_id)
  with True y(2,3) assms(3) show ?thesis by (intro bexI [of _ y]) simp_all
next
  case False
  with assms(1) have "x \<in> set (save e r logs)"
    by (auto simp: save_def Let_def)
  with assms(2) show ?thesis by blast
qed

subsection \<open>The paths through send\_reminder\_email\<close>

lemma send_reminder_email_db_fault:
  "db_fault e \<noteq> None \<Longrightarrow> send_reminder_email e t s = (False, s)"
  by (simp add: send_reminder_email_def)

lemma send_reminder_email_already_sent:
  assumes "db_fault e = None"
    and "lookup_log (task_appointment_id t) (reminder_logs s) = Some r"
    and "reminder_sent r"
  shows "send_reminder_email e t s = (True, s)"
  using assms by (simp add: send_reminder_email_def get_or_create_found)

lemma send_reminder_email_attempt:
  assumes "db_fault e = None"
    and "get_or_create e (task_appointment_id t) (task_user_email t) (task_appointment_date t)
           (reminder_logs s) = ((r, created), logs1)"
    and "created \<or> \<not> reminder_sent r"
    and "resolve_template (email_templates s) = Inr (template, tpls)"
  shows "send_reminder_email e t s =
     (case render e template (build_context e (task_appointment_date t) (task_appointment_data t)) of
        None \<Rightarrow> (False, s\<lparr>reminder_logs := logs1, email_templates := tpls\<rparr>)
      | Some rendered \<Rightarrow>
          (case send_mail e (make_email e (task_user_email t) rendered) of
             None \<Rightarrow> (False, s\<lparr>reminder_logs := logs1, email_templates := tpls\<rparr>)
           | Some sent_count \<Rightarrow>
               (True,
                s\<lparr>reminder_logs :=
                    save e (r\<lparr>reminder_sent := True, reminder_sent_at := Some (now e)\<rparr>) logs1,
                  email_templates := tpls,
                  collection :=
                    snd (mark_reminder_sent e (task_appointment_id t) (collection s)),
                  effects := effects s @
                    replicate sent_count (Mail (make_email e (task_user_email t) rendered)) @
                    [LedgerSave (r\<lparr>reminder_sent := True, reminder_sent_at := Some (now e)\<rparr>),
                     MongoMark (task_appointment_id t)
                       (fst (mark_reminder_sent e (task_appointment_id t) (collection s)))]\<rparr>)))"
  using assms
  by (auto simp: send_reminder_email_def Let_def split: option.splits prod.splits)

lemma send_mail_cases:
  "send_mail e m = None \<longleftrightarrow> recipients m \<noteq> [] \<and> \<not> smtp_accepts e m"
  "send_mail e m = Some n \<longleftrightarrow>
     (recipients m = [] \<and> n = 0) \<or> (recipients m \<noteq> [] \<and> smtp_accepts e m \<and> n = 1)"
  by (auto simp: send_mail_def)

lemma recipients_make_email:
  "recipients (make_email e addr rendered) = (if addr = [] then [] else [addr])"
  by (cases rendered) (simp add: recipients_def make_email_def)

lemma resolve_template_succeeds:
  "\<exists>template tpls. resolve_template tpls0 = Inr (template, tpls)"
  by (auto simp: resolve_template_def active_template_def create_default_email_template_def
        create_template_def Let_def list_ex_iff find_None_iff split: option.splits)

subsection \<open>Retention sweep and candidate query\<close>

text \<open>
  Claim C5. \<open>cleanup_old_reminders\<close> keeps exactly the rows whose \<open>created_at\<close> is not
  strictly before the current time less 30 days, whatever their state; a row is deleted
  if and only if it is strictly older than that; the result reports the number of rows
  deleted; templates, collection and effects are untouched.
\<close>
theorem cleanup_old_reminders_retention:
  assumes "db_fault e = None"
  shows "reminder_logs (snd (cleanup_old_reminders e s)) =
           filter (\<lambda>r. \<not> created_at r < now e - 30 * 86400000000) (reminder_logs s)
       \<and> (\<forall>r \<in> set (reminder_logs s).
             r \<notin> set (reminder_logs (snd (cleanup_old_reminders e s)))
               \<longleftrightarrow> created_at r < now e - 30 * 86400000000)
       \<and> fst (cleanup_old_reminders e s) =
           [(''status'', Str ''success''),
            (''deleted_count'',
             Num (int (length (filter (\<lambda>r. created_at r < now e - 30 * 86400000000)
                                 (reminder_logs s)))))]
       \<and> length (reminder_logs s) =
           length (reminder_logs (snd (cleanup_old_reminders e s)))
           + length (filter (\<lambda>r. created_at r < now e - 30 * 86400000000) (reminder_logs s))
       \<and> email_templates (snd (cleanup_old_reminders e s)) = email_templates s
       \<and> collection (snd (cleanup_old_reminders e s)) = collection s
       \<and> effects (snd (cleanup_old_reminders e s)) = effects s"
proof -
  let ?old = "\<lambda>r. created_at r < now e - 30 * 86400000000"
  have run: "cleanup_old_reminders e s =
      ([(''status'', Str ''success''),
        (''deleted_count'', Num (int (length (filter ?old (reminder_logs s)))))],
       s\<lparr>reminder_logs := filter (\<lambda>r. \<not> ?old r) (reminder_logs s)\<rparr>)"
    using assms by (simp add: cleanup_old_reminders_def timedelta_days_def Let_def)
  have count: "length (reminder_logs s) =
      length (filter (\<lambda>r. \<not> ?old r) (reminder_logs s)) + length (filter ?old (reminder_logs s))"
    using sum_length_filter_compl [of ?old "reminder_logs s"] by simp
  show ?thesis
    unfolding run using count by auto
qed

text \<open>
  Claim C6 as stated fails. Half a millisecond after the round time of
  \<open>example_env\<close>, the appointment at 14 minutes after that round time is half a
  millisecond before the start of the window, and the query returns it: the driver has
  dropped the half millisecond from the lower bound.
\<close>
theorem window_lower_bound_counterexample:
  "\<not> mongo_read_fault later_env
   \<and> from_bson (appointmentDate early_appointment) < utcnow later_env + 14 * 60000000
   \<and> get_appointments_for_reminder later_env 15 [early_appointment] = [early_appointment]"
  by (simp add: later_env_def example_env_def early_appointment_def example_appointment_def
        from_bson_def to_bson_def get_appointments_for_reminder_def reminder_query_def
        timedelta_minutes_def Let_def)

lemma bson_lower_bound: "to_bson t \<le> b \<longleftrightarrow> t - t mod 1000 \<le> from_bson b"
proof -
  have "t - t mod 1000 = (t div 1000) * 1000" by (simp add: minus_mod_eq_div_mult)
  then show ?thesis unfolding to_bson_def from_bson_def by simp
qed

lemma bson_upper_bound: "b \<le> to_bson t \<longleftrightarrow> from_bson b \<le> t"
proof
  assume "b \<le> to_bson t"
  then have "b * 1000 \<le> (t div 1000) * 1000" by (simp add: to_bson_def)
  moreover have "0 \<le> t mod 1000" by simp
  moreover have "(t div 1000) * 1000 + t mod 1000 = t" by simp
  ultimately show "from_bson b \<le> t" unfolding from_bson_def by linarith
next
  assume "from_bson b \<le> t"
  then have "b * 1000 div 1000 \<le> t div 1000"
    unfolding from_bson_def by (intro zdiv_mono1) simp_all
  then show "b \<le> to_bson t" by (simp add: to_bson_def)
qed

lemma round_time: "(u::int) mod 1000 = 0 \<Longrightarrow> (u + 14 * 60000000) mod 1000 = 0"
proof -
  assume "u mod 1000 = 0"
  moreover have "(u + 14 * 60000000) mod 1000 = (u mod 1000 + (14 * 60000000) mod 1000) mod 1000"
    by (rule mod_add_eq [symmetric])
  ultimately show ?thesis by simp
qed

text \<open>
  Claim C6, amended. With \<open>minutes_before = 15\<close> the query returns exactly the documents
  of the collection whose scheduled time is at or after the millisecond in which the
  time 14 minutes from now falls and at or before 16 minutes from now, whose status is
  \<open>waiting\<close>, \<open>confirmed\<close> or \<open>scheduled\<close>, and whose \<open>reminderSent\<close> flag is not
  \<open>True\<close>. When the current time is a whole number of milliseconds this is the closed
  window from 14 to 16 minutes from now.
\<close>
theorem get_appointments_for_reminder_window:
  assumes "\<not> mongo_read_fault e"
  shows "get_appointments_for_reminder e 15 coll =
           filter (\<lambda>d. (utcnow e + 14 * 60000000) - (utcnow e + 14 * 60000000) mod 1000
                          \<le> from_bson (appointmentDate d)
                      \<and> from_bson (appointmentDate d) \<le> utcnow e + 16 * 60000000
                      \<and> (status d = ''waiting'' \<or> status d = ''confirmed''
                           \<or> status d = ''scheduled'')
                      \<and> reminderSent d \<noteq> Some True) coll
       \<and> (utcnow e mod 1000 = 0 \<longrightarrow>
            get_appointments_for_reminder e 15 coll =
              filter (\<lambda>d. utcnow e + 14 * 60000000 \<le> from_bson (appointmentDate d)
                         \<and> from_bson (appointmentDate d) \<le> utcnow e + 16 * 60000000
                         \<and> (status d = ''waiting'' \<or> status d = ''confirmed''
                              \<or> status d = ''scheduled'')
                         \<and> reminderSent d \<noteq> Some True) coll)"
proof -
  let ?lo = "utcnow e + 14 * 60000000" and ?hi = "utcnow e + 16 * 60000000"
  have q: "reminder_query (to_bson ?lo) (to_bson ?hi) =
          (\<lambda>d. ?lo - ?lo mod 1000 \<le> from_bson (appointmentDate d)
                      \<and> from_bson (appointmentDate d) \<le> ?hi
                      \<and> (status d = ''waiting'' \<or> status d = ''confirmed''
                           \<or> status d = ''scheduled'')
                      \<and> reminderSent d \<noteq> Some True)"
    by (auto simp: reminder_query_def fun_eq_iff bson_lower_bound bson_upper_bound)
  have first: "get_appointments_for_reminder e 15 coll =
           filter (\<lambda>d. ?lo - ?lo mod 1000 \<le> from_bson (appointmentDate d)
                      \<and> from_bson (appointmentDate d) \<le> ?hi
                      \<and> (status d = ''waiting'' \<or> status d = ''confirmed''
                           \<or> status d = ''scheduled'')
                      \<and> reminderSent d \<noteq> Some True) coll"
    using assms q
    by (simp add: get_appointments_for_reminder_def timedelta_minutes_def Let_def)
  have round: "utcnow e mod 1000 = 0 \<Longrightarrow> ?lo mod 1000 = 0" by (rule round_time)
  show ?thesis
  proof (intro conjI impI)
    show "get_appointments_for_reminder e 15 coll =
           filter (\<lambda>d. ?lo - ?lo mod 1000 \<le> from_bson (appointmentDate d)
                      \<and> from_bson (appointmentDate d) \<le> ?hi
                      \<and> (status d = ''waiting'' \<or> status d = ''confirmed''
                           \<or> status d = ''scheduled'')
                      \<and> reminderSent d \<noteq> Some True) coll"
      by (rule first)
  next
    assume "utcnow e mod 1000 = 0"
    then have "?lo mod 1000 = 0" by (rule round)
    with first show "get_appointments_for_reminder e 15 coll =
              filter (\<lambda>d. ?lo \<le> from_bson (appointmentDate d)
                         \<and> from_bson (appointmentDate d) \<le> ?hi
                         \<and> (status d = ''waiting'' \<or> status d = ''confirmed''
                              \<or> status d = ''scheduled'')
                         \<and> reminderSent d \<noteq> Some True) coll"
      by simp
  qed
qed

subsection \<open>The steps of a worker are the function\<close>

text \<open>
  A worker that is left alone reaches \<open>Done\<close> within six steps, with the return value
  and the state of \<open>send_reminder_email\<close>: the steps cut the function body at its
  accesses to the stores and change nothing else.
\<close>

lemma run_worker_Done: "run_worker e t n (Done b, s) = (Done b, s)"
  by (induction n) simp_all

lemma run_worker_is_send_reminder_email:
  "run_worker e t 6 (Start, s) =
     (Done (fst (send_reminder_email e t s)), snd (send_reminder_email e t s))"
proof -
  have six: "(6::nat) = Suc (Suc (Suc (Suc (Suc (Suc 0)))))" by simp
  show ?thesis
    unfolding six
    by (simp add: send_reminder_email_def resolve_template_def run_worker_Done Let_def
          split: prod.splits option.splits sum.splits)
qed

subsection \<open>Claim, render, dispatch, finalize\<close>

lemma send_reminder_email_ledger_cases:
  "reminder_logs (snd (send_reminder_email e t s)) = reminder_logs s
   \<or> reminder_logs (snd (send_reminder_email e t s)) =
       snd (get_or_create e (task_appointment_id t) (task_user_email t)
              (task_appointment_date t) (reminder_logs s))
   \<or> reminder_logs (snd (send_reminder_email e t s)) =
       save e
         ((fst (fst (get_or_create e (task_appointment_id t) (task_user_email t)
                      (task_appointment_date t) (reminder_logs s))))
            \<lparr>reminder_sent := True, reminder_sent_at := Some (now e)\<rparr>)
         (snd (get_or_create e (task_appointment_id t) (task_user_email t)
                 (task_appointment_date t) (reminder_logs s)))"
  by (simp add: send_reminder_email_def Let_def split: option.splits prod.splits sum.splits)

lemma send_reminder_email_keeps_sent:
  assumes "x \<in> set (reminder_logs s)" and "reminder_sent x"
  shows "\<exists>y \<in> set (reminder_logs (snd (send_reminder_email e t s))).
           appointment_id y = appointment_id x \<and> reminder_sent y"
proof -
  let ?g = "get_or_create e (task_appointment_id t) (task_user_email t)
              (task_appointment_date t) (reminder_logs s)"
  let ?r' = "(fst (fst ?g))\<lparr>reminder_sent := True, reminder_sent_at := Some (now e)\<rparr>"
  from assms(1) have x1: "x \<in> set (snd ?g)" by (rule get_or_create_keeps_rows)
  have sent: "reminder_sent ?r'" by simp
  from send_reminder_email_ledger_cases [of e t s] show ?thesis
  proof (elim disjE)
    assume "reminder_logs (snd (send_reminder_email e t s)) = reminder_logs s"
    with assms show ?thesis by auto
  next
    assume "reminder_logs (snd (send_reminder_email e t s)) = snd ?g"
    with x1 assms(2) show ?thesis by auto
  next
    assume "reminder_logs (snd (send_reminder_email e t s)) = save e ?r' (snd ?g)"
    with save_keeps_sent [OF x1 assms(2) sent, of e] show ?thesis by simp
  qed
qed

text \<open>
  Claim C3. When the row of the task's appointment is in state Sent,
  \<open>send_reminder_email\<close> dispatches no email and leaves the row and the whole state as
  they are (returning \<open>True\<close> when the store answers). No run of \<open>send_reminder_email\<close>,
  for any task and any state, takes a row out of state Sent, and
  \<open>cleanup_old_reminders\<close> only removes rows: nothing sets \<open>reminder_sent\<close> back to
  \<open>False\<close>.
\<close>
theorem sent_record_is_final:
  assumes "lookup_log (task_appointment_id t) (reminder_logs s) = Some r"
    and "reminder_sent r"
  shows "snd (send_reminder_email e t s) = s
       \<and> outbox (snd (send_reminder_email e t s)) = outbox s
       \<and> lookup_log (task_appointment_id t) (reminder_logs (snd (send_reminder_email e t s))) = Some r
       \<and> (db_fault e = None \<longrightarrow> fst (send_reminder_email e t s))
       \<and> (\<forall>x \<in> set (reminder_logs s2). reminder_sent x \<longrightarrow>
             (\<exists>y \<in> set (reminder_logs (snd (send_reminder_email e t2 s2))).
                appointment_id y = appointment_id x \<and> reminder_sent y))
       \<and> (\<forall>y \<in> set (reminder_logs (snd (cleanup_old_reminders e s2))).
             y \<in> set (reminder_logs s2))"
proof -
  have same: "snd (send_reminder_email e t s) = s"
  proof (cases "db_fault e")
    case None
    with assms show ?thesis by (simp add: send_reminder_email_already_sent)
  next
    case (Some msg)
    then show ?thesis by (simp add: send_reminder_email_db_fault)
  qed
  have ret: "db_fault e = None \<longrightarrow> fst (send_reminder_email e t s)"
    using assms by (simp add: send_reminder_email_already_sent)
  have keep: "\<forall>x \<in> set (reminder_logs s2). reminder_sent x \<longrightarrow>
             (\<exists>y \<in> set (reminder_logs (snd (send_reminder_email e t2 s2))).
                appointment_id y = appointment_id x \<and> reminder_sent y)"
    using send_reminder_email_keeps_sent by blast
  have sweep: "\<forall>y \<in> set (reminder_logs (snd (cleanup_old_reminders e s2))).
             y \<in> set (reminder_logs s2)"
    by (auto simp: cleanup_old_reminders_def Let_def split: option.splits)
  from same ret keep sweep assms(1) show ?thesis by simp
qed

text \<open>
  Claim C4. When the attempt gets past the claim step and then rendering fails or the
  gateway call fails (\<open>send_mail\<close> raises), \<open>send_reminder_email\<close> returns \<open>False\<close>, performs no
  effect (no email, no save, no flag request), leaves the collection alone, and the
  ledger is as the claim step left it: the row of the appointment is in state Claimed,
  with \<open>reminder_sent_at\<close> unset when the row was created by this attempt and the row
  untouched when it existed before.
\<close>
theorem failed_attempt_stays_claimed:
  assumes "db_fault e = None"
    and "get_or_create e (task_appointment_id t) (task_user_email t) (task_appointment_date t)
           (reminder_logs s) = ((r, created), logs1)"
    and "created \<or> \<not> reminder_sent r"
    and "resolve_template (email_templates s) = Inr (template, tpls)"
    and "render e template (build_context e (task_appointment_date t) (task_appointment_data t)) = None
         \<or> (\<exists>rendered.
               render e template (build_context e (task_appointment_date t) (task_appointment_data t))
                 = Some rendered
               \<and> send_mail e (make_email e (task_user_email t) rendered) = None)"
  shows "fst (send_reminder_email e t s) = False
       \<and> effects (snd (send_reminder_email e t s)) = effects s
       \<and> outbox (snd (send_reminder_email e t s)) = outbox s
       \<and> collection (snd (send_reminder_email e t s)) = collection s
       \<and> reminder_logs (snd (send_reminder_email e t s)) = logs1
       \<and> lookup_log (task_appointment_id t) (reminder_logs (snd (send_reminder_email e t s))) = Some r
       \<and> \<not> reminder_sent r
       \<and> (created \<longrightarrow> reminder_sent_at r = None)
       \<and> (\<not> created \<longrightarrow> lookup_log (task_appointment_id t) (reminder_logs s) = Some r)"
proof -
  have run: "send_reminder_email e t s = (False, s\<lparr>reminder_logs := logs1, email_templates := tpls\<rparr>)"
    using assms(5) by (auto simp: send_reminder_email_attempt [OF assms(1-4)])
  have look: "lookup_log (task_appointment_id t) logs1 = Some r"
    using assms(2) by (rule get_or_create_lookup)
  have fresh: "created \<longrightarrow> \<not> reminder_sent r \<and> reminder_sent_at r = None"
    using assms(2)
    by (cases "lookup_log (task_appointment_id t) (reminder_logs s)")
       (auto simp: get_or_create_found get_or_create_new new_reminder_log_def)
  have old: "\<not> created \<longrightarrow> lookup_log (task_appointment_id t) (reminder_logs s) = Some r"
    using assms(2)
    by (cases "lookup_log (task_appointment_id t) (reminder_logs s)")
       (auto simp: get_or_create_found get_or_create_new)
  from run look fresh old assms(3) show ?thesis
    by (auto simp: outbox_def)
qed

subsection \<open>The flag of the appointment document\<close>

lemma update_one_found:
  "lookup_appointment aid ds = Some d \<Longrightarrow>
     lookup_appointment aid (fst (update_one aid t ds))
       = Some (d\<lparr>reminderSent := Some True, reminderSentAt := Some t\<rparr>)
     \<and> snd (update_one aid t ds)
       = (if d\<lparr>reminderSent := Some True, reminderSentAt := Some t\<rparr> = d then 0 else 1)"
  unfolding lookup_appointment_def
  by (induction ds) (auto simp: Let_def split: prod.splits if_splits)

lemma update_one_missing:
  "lookup_appointment aid ds = None \<Longrightarrow> update_one aid t ds = (ds, 0)"
  unfolding lookup_appointment_def
  by (induction ds) (auto simp: Let_def split: prod.splits if_splits)

lemma update_one_other:
  "a \<noteq> aid \<Longrightarrow> lookup_appointment a (fst (update_one aid t ds)) = lookup_appointment a ds"
  unfolding lookup_appointment_def
  by (induction ds) (auto simp: Let_def split: prod.splits if_splits)

lemma mark_reminder_sent_fault:
  "mongo_write_fault e \<Longrightarrow> mark_reminder_sent e aid coll = (False, coll)"
  by (simp add: mark_reminder_sent_def)

lemma mark_reminder_sent_found:
  assumes "\<not> mongo_write_fault e" and "lookup_appointment aid coll = Some d"
  shows "lookup_appointment aid (snd (mark_reminder_sent e aid coll))
           = Some (d\<lparr>reminderSent := Some True, reminderSentAt := Some (to_bson (utcnow e))\<rparr>)
       \<and> fst (mark_reminder_sent e aid coll)
           = (d\<lparr>reminderSent := Some True, reminderSentAt := Some (to_bson (utcnow e))\<rparr> \<noteq> d)"
  using assms(1) update_one_found [OF assms(2), of "to_bson (utcnow e)"]
  by (auto simp: mark_reminder_sent_def Let_def split: prod.splits)

lemma mark_reminder_sent_missing:
  assumes "\<not> mongo_write_fault e" and "lookup_appointment aid coll = None"
  shows "mark_reminder_sent e aid coll = (False, coll)"
  using assms(1) update_one_missing [OF assms(2), of "to_bson (utcnow e)"]
  by (simp add: mark_reminder_sent_def)

lemma mark_reminder_sent_other:
  "a \<noteq> aid \<Longrightarrow>
     lookup_appointment a (snd (mark_reminder_sent e aid coll)) = lookup_appointment a coll"
  using update_one_other [of a aid "to_bson (utcnow e)" coll]
  by (auto simp: mark_reminder_sent_def Let_def split: prod.splits)

lemma outbox_replicate:
  "concat (map (\<lambda>e. case e of Mail m \<Rightarrow> [m] | _ \<Rightarrow> []) (replicate n (Mail m))) = replicate n m"
  by (induction n) simp_all

text \<open>
  Claim C7. When the gateway accepts the email, the effects of the attempt are, in this
  order, the email, the save of the row with \<open>reminder_sent = True\<close> and
  \<open>reminder_sent_at\<close> set, and only then the request to set the flag of the appointment
  document. The attempt returns \<open>True\<close> and the row is Sent whatever that request
  returned. The request is \<open>mark_reminder_sent\<close> on the collection as it was: when the
  store takes the write, the document of the appointment has \<open>reminderSent = True\<close> and
  the time of the request afterwards, and the request returns whether that changed the
  document; when the store refuses the write or holds no such document, the request
  returns \<open>False\<close> and the collection is unchanged. No other document is touched.
\<close>
theorem finalize_then_mark:
  assumes "db_fault e = None"
    and "get_or_create e (task_appointment_id t) (task_user_email t) (task_appointment_date t)
           (reminder_logs s) = ((r, created), logs1)"
    and "created \<or> \<not> reminder_sent r"
    and "resolve_template (email_templates s) = Inr (template, tpls)"
    and "render e template (build_context e (task_appointment_date t) (task_appointment_data t))
           = Some rendered"
    and "recipients (make_email e (task_user_email t) rendered) \<noteq> []"
    and "smtp_accepts e (make_email e (task_user_email t) rendered)"
  shows "fst (send_reminder_email e t s) = True
       \<and> effects (snd (send_reminder_email e t s)) =
           effects s @
             [Mail (make_email e (task_user_email t) rendered),
              LedgerSave (r\<lparr>reminder_sent := True, reminder_sent_at := Some (now e)\<rparr>),
              MongoMark (task_appointment_id t)
                (fst (mark_reminder_sent e (task_appointment_id t) (collection s)))]
       \<and> lookup_log (task_appointment_id t) (reminder_logs (snd (send_reminder_email e t s))) =
           Some (r\<lparr>reminder_sent := True, reminder_sent_at := Some (now e), updated_at := now e\<rparr>)
       \<and> collection (snd (send_reminder_email e t s)) =
           snd (mark_reminder_sent e (task_appointment_id t) (collection s))
       \<and> (mongo_write_fault e \<longrightarrow>
            fst (mark_reminder_sent e (task_appointment_id t) (collection s)) = False
            \<and> collection (snd (send_reminder_email e t s)) = collection s)
       \<and> (\<not> mongo_write_fault e \<longrightarrow>
            (\<forall>d. lookup_appointment (task_appointment_id t) (collection s) = Some d \<longrightarrow>
               lookup_appointment (task_appointment_id t)
                   (collection (snd (send_reminder_email e t s)))
                 = Some (d\<lparr>reminderSent := Some True,
                           reminderSentAt := Some (to_bson (utcnow e))\<rparr>)
               \<and> fst (mark_reminder_sent e (task_appointment_id t) (collection s))
                 = (d\<lparr>reminderSent := Some True,
                       reminderSentAt := Some (to_bson (utcnow e))\<rparr> \<noteq> d)))
       \<and> (\<not> mongo_write_fault e \<longrightarrow>
            lookup_appointment (task_appointment_id t) (collection s) = None \<longrightarrow>
              fst (mark_reminder_sent e (task_appointment_id t) (collection s)) = False
              \<and> collection (snd (send_reminder_email e t s)) = collection s)
       \<and> (\<forall>a. a \<noteq> task_appointment_id t \<longrightarrow>
            lookup_appointment a (collection (snd (send_reminder_email e t s)))
              = lookup_appointment a (collection s))"
proof -
  let ?r' = "r\<lparr>reminder_sent := True, reminder_sent_at := Some (now e)\<rparr>"
  let ?m = "make_email e (task_user_email t) rendered"
  let ?aid = "task_appointment_id t"
  have rid: "appointment_id r = ?aid"
    using assms(2) by (rule get_or_create_row_id)
  have l1: "lookup_log (appointment_id ?r') logs1 = Some r"
    using get_or_create_lookup [OF assms(2)] rid by simp
  have look: "lookup_log ?aid (save e ?r' logs1) =
      Some (r\<lparr>reminder_sent := True, reminder_sent_at := Some (now e), updated_at := now e\<rparr>)"
    using lookup_save_existing [OF l1, of e] rid by simp
  have sm: "send_mail e ?m = Some 1"
    using assms(6,7) by (simp add: send_mail_def)
  have run: "send_reminder_email e t s =
      (True,
       s\<lparr>reminder_logs := save e ?r' logs1, email_templates := tpls,
         collection := snd (mark_reminder_sent e ?aid (collection s)),
         effects := effects s @
           [Mail ?m, LedgerSave ?r',
            MongoMark ?aid (fst (mark_reminder_sent e ?aid (collection s)))]\<rparr>)"
    using assms(5) sm by (simp add: send_reminder_email_attempt [OF assms(1-4)])
  have coll: "collection (snd (send_reminder_email e t s))
                = snd (mark_reminder_sent e ?aid (collection s))"
    by (simp add: run)
  have fault: "mongo_write_fault e \<longrightarrow>
      fst (mark_reminder_sent e ?aid (collection s)) = False
      \<and> collection (snd (send_reminder_email e t s)) = collection s"
    by (simp add: coll mark_reminder_sent_fault)
  have found: "\<not> mongo_write_fault e \<longrightarrow>
      (\<forall>d. lookup_appointment ?aid (collection s) = Some d \<longrightarrow>
         lookup_appointment ?aid (collection (snd (send_reminder_email e t s)))
           = Some (d\<lparr>reminderSent := Some True, reminderSentAt := Some (to_bson (utcnow e))\<rparr>)
         \<and> fst (mark_reminder_sent e ?aid (collection s))
           = (d\<lparr>reminderSent := Some True, reminderSentAt := Some (to_bson (utcnow e))\<rparr> \<noteq> d))"
    unfolding coll using mark_reminder_sent_found by blast
  have missing: "\<not> mongo_write_fault e \<longrightarrow>
      lookup_appointment ?aid (collection s) = None \<longrightarrow>
        fst (mark_reminder_sent e ?aid (collection s)) = False
        \<and> collection (snd (send_reminder_email e t s)) = collection s"
    by (simp add: coll mark_reminder_sent_missing)
  have other: "\<forall>a. a \<noteq> ?aid \<longrightarrow>
      lookup_appointment a (collection (snd (send_reminder_email e t s)))
        = lookup_appointment a (collection s)"
    by (simp add: coll mark_reminder_sent_other)
  have ret: "fst (send_reminder_email e t s) = True" by (simp add: run)
  have eff: "effects (snd (send_reminder_email e t s)) =
           effects s @
             [Mail ?m, LedgerSave ?r',
              MongoMark ?aid (fst (mark_reminder_sent e ?aid (collection s)))]"
    by (simp add: run)
  have row: "lookup_log ?aid (reminder_logs (snd (send_reminder_email e t s))) =
      Some (r\<lparr>reminder_sent := True, reminder_sent_at := Some (now e), updated_at := now e\<rparr>)"
    using look by (simp add: run)
  from ret eff row coll fault found missing other show ?thesis by blast
qed

subsection \<open>A row in state Claimed at the start\<close>

text \<open>
  Claim C2, amended. When a row exists for the appointment at the start of
  \<open>send_reminder_email\<close>, only state Sent stops the attempt (it returns \<open>True\<close> and
  changes nothing). A row in state Claimed does not stop it: the attempt goes on to the
  template, the rendering and \<open>send_mail\<close>, and when these do not raise it returns
  \<open>True\<close>, the row becomes Sent, and the email is dispatched: once when the task has a
  recipient address, not at all when the address is empty.
\<close>
theorem claimed_record_is_retried:
  assumes "db_fault e = None"
    and "lookup_log (task_appointment_id t) (reminder_logs s) = Some r"
  shows "(reminder_sent r \<longrightarrow>
            send_reminder_email e t s = (True, s))
       \<and> (\<not> reminder_sent r \<longrightarrow>
            (\<forall>template tpls rendered n.
               resolve_template (email_templates s) = Inr (template, tpls) \<longrightarrow>
               render e template
                 (build_context e (task_appointment_date t) (task_appointment_data t)) = Some rendered \<longrightarrow>
               send_mail e (make_email e (task_user_email t) rendered) = Some n \<longrightarrow>
                 fst (send_reminder_email e t s) = True
                 \<and> n = (if task_user_email t = [] then 0 else 1)
                 \<and> outbox (snd (send_reminder_email e t s)) =
                     outbox s @ replicate n (make_email e (task_user_email t) rendered)
                 \<and> lookup_log (task_appointment_id t)
                     (reminder_logs (snd (send_reminder_email e t s))) =
                     Some (r\<lparr>reminder_sent := True, reminder_sent_at := Some (now e),
                             updated_at := now e\<rparr>)))"
proof (intro conjI impI allI)
  assume "reminder_sent r"
  with assms show "send_reminder_email e t s = (True, s)"
    by (simp add: send_reminder_email_already_sent)
next
  fix template tpls rendered n
  assume claimed: "\<not> reminder_sent r"
    and tpl: "resolve_template (email_templates s) = Inr (template, tpls)"
    and ren: "render e template
                 (build_context e (task_appointment_date t) (task_appointment_data t)) = Some rendered"
    and sm: "send_mail e (make_email e (task_user_email t) rendered) = Some n"
  have goc: "get_or_create e (task_appointment_id t) (task_user_email t) (task_appointment_date t)
           (reminder_logs s) = ((r, False), reminder_logs s)"
    using assms(2) by (rule get_or_create_found)
  have c: "False \<or> \<not> reminder_sent r" using claimed by simp
  note run = send_reminder_email_attempt [OF assms(1) goc c tpl]
  have rid: "appointment_id r = task_appointment_id t"
    using assms(2) by (simp add: lookup_log_Some_id)
  let ?r' = "r\<lparr>reminder_sent := True, reminder_sent_at := Some (now e)\<rparr>"
  have l1: "lookup_log (appointment_id ?r') (reminder_logs s) = Some r"
    using assms(2) rid by simp
  have look: "lookup_log (task_appointment_id t) (save e ?r' (reminder_logs s)) =
      Some (r\<lparr>reminder_sent := True, reminder_sent_at := Some (now e), updated_at := now e\<rparr>)"
    using lookup_save_existing [OF l1, of e] rid by simp
  show "fst (send_reminder_email e t s) = True" using ren sm by (simp add: run)
  show "n = (if task_user_email t = [] then 0 else 1)"
    using sm by (auto simp: send_mail_cases recipients_make_email split: if_splits)
  show "outbox (snd (send_reminder_email e t s)) =
                     outbox s @ replicate n (make_email e (task_user_email t) rendered)"
    using ren sm by (simp add: run outbox_def outbox_replicate)
  show "lookup_log (task_appointment_id t)
                     (reminder_logs (snd (send_reminder_email e t s))) =
                     Some (r\<lparr>reminder_sent := True, reminder_sent_at := Some (now e),
                             updated_at := now e\<rparr>)"
    using ren sm look by (simp add: run)
qed

text \<open>
  The function does not look at the number that \<open>send_mail\<close> returns. For the
  appointment without a notification address nothing is handed to the gateway, and the
  attempt still returns \<open>True\<close> and leaves the row in state Sent.
\<close>

lemma empty_recipient_is_marked_sent:
  "task_user_email silent_task = []
   \<and> fst (send_reminder_email example_env silent_task example_state) = True
   \<and> outbox (snd (send_reminder_email example_env silent_task example_state)) = []
   \<and> row_is_sent ''a1''
       (reminder_logs (snd (send_reminder_email example_env silent_task example_state)))"
  by (simp add: silent_task_def silent_appointment_def example_env_def example_state_def
        example_appointment_def example_template_def task_of_def from_bson_def to_bson_def
        send_reminder_email_def get_or_create_def lookup_log_def new_reminder_log_def
        resolve_template_def active_template_def render_def format_without_fields_def
        make_email_def build_context_def save_def send_mail_def recipients_def
        mark_reminder_sent_def outbox_def row_is_sent_def Let_def)

subsection \<open>Uniqueness constraints bound the number of matching rows\<close>

lemma distinct_key_filter_le_1:
  "distinct (map f xs) \<Longrightarrow> length (filter (\<lambda>x. f x = k \<and> P x) xs) \<le> 1"
proof (induction xs)
  case Nil
  then show ?case by simp
next
  case (Cons x xs)
  show ?case
  proof (cases "f x = k")
    case True
    with Cons.prems have "k \<notin> f ` set xs" by simp
    then have "\<forall>y \<in> set xs. f y \<noteq> k" by blast
    then have "filter (\<lambda>x. f x = k \<and> P x) xs = []" by (simp add: filter_empty_conv)
    then show ?thesis by simp
  next
    case False
    with Cons show ?thesis by simp
  qed
qed

lemma unique_sent_records:
  "unique_appointment_id logs \<Longrightarrow> length (sent_records aid category logs) \<le> 1"
  unfolding unique_appointment_id_def sent_records_def
  using distinct_key_filter_le_1 [of appointment_id logs aid "\<lambda>r. reminder_type r = category \<and> reminder_sent r"]
  by simp

lemma unique_active_templates:
  "unique_together tpls \<Longrightarrow> length (active_templates category tpls) \<le> 1"
proof -
  assume "unique_together tpls"
  then have "length (filter (\<lambda>t. (template_type t, is_active t) = (category, True) \<and> True) tpls) \<le> 1"
    unfolding unique_together_def by (rule distinct_key_filter_le_1)
  moreover have "(\<lambda>t. (template_type t, is_active t) = (category, True) \<and> True)
                  = (\<lambda>t. template_type t = category \<and> is_active t)"
    by auto
  ultimately show ?thesis by (simp add: active_templates_def)
qed

subsection \<open>create\_default\_email\_template\<close>

lemma create_template_unique:
  "unique_together tpls \<Longrightarrow> create_template t tpls = Inr tpls' \<Longrightarrow> unique_together tpls'"
  by (auto simp: create_template_def unique_together_def list_ex_iff split: if_splits)

lemma create_default_unique:
  "unique_together tpls \<Longrightarrow> create_default_email_template tpls = Inr (t, tpls') \<Longrightarrow>
     unique_together tpls'"
  by (auto simp: create_default_email_template_def Let_def split: sum.splits
           dest: create_template_unique)

lemma create_default_no_active:
  assumes "active_templates ''15min'' tpls = []"
  shows "\<exists>template. create_default_email_template tpls = Inr (template, tpls @ [template])
           \<and> template_type template = ''15min'' \<and> is_active template
           \<and> active_templates ''15min'' (tpls @ [template]) = [template]"
proof -
  from assms have no: "\<not> list_ex (\<lambda>x. template_type x = ''15min'' \<and> is_active x = True) tpls"
    by (auto simp: active_templates_def filter_empty_conv list_ex_iff)
  then show ?thesis using assms
    by (simp add: create_default_email_template_def create_template_def Let_def
          active_templates_def)
qed

lemma create_default_active:
  assumes "active_templates ''15min'' tpls \<noteq> []"
  shows "create_default_email_template tpls = Inl IntegrityError"
proof -
  from assms have "list_ex (\<lambda>x. template_type x = ''15min'' \<and> is_active x = True) tpls"
    by (auto simp: active_templates_def filter_empty_conv list_ex_iff)
  then show ?thesis
    by (simp add: create_default_email_template_def create_template_def Let_def)
qed

subsection \<open>Invariants of the concurrent system\<close>

lemma worker_step_unique_logs:
  assumes "unique_appointment_id (reminder_logs s)"
  shows "unique_appointment_id (reminder_logs (snd (worker_step e t p s)))"
proof (cases p)
  case Start
  obtain r created logs1 where g:
    "get_or_create e (task_appointment_id t) (task_user_email t)
       (task_appointment_date t) (reminder_logs s) = ((r, created), logs1)"
    by (metis prod.exhaust)
  from get_or_create_unique [OF assms, of e "task_appointment_id t" "task_user_email t"
      "task_appointment_date t"] g
  have "unique_appointment_id logs1" by simp
  with assms Start g show ?thesis by (simp add: Let_def)
next
  case (Mailed r)
  with assms show ?thesis by (simp add: Let_def save_unique)
qed (use assms in \<open>auto simp: Let_def split: option.splits sum.splits prod.splits\<close>)

lemma worker_step_unique_templates:
  "unique_together (email_templates s) \<Longrightarrow>
     unique_together (email_templates (snd (worker_step e t p s)))"
  by (cases p) (auto simp: Let_def create_default_unique split: option.splits sum.splits prod.splits)

lemma worker_step_keeps_sent:
  assumes "x \<in> set (reminder_logs s)" and "reminder_sent x"
  shows "\<exists>y \<in> set (reminder_logs (snd (worker_step e t p s))).
           appointment_id y = appointment_id x \<and> reminder_sent y"
proof (cases p)
  case Start
  obtain r created logs1 where g:
    "get_or_create e (task_appointment_id t) (task_user_email t)
       (task_appointment_date t) (reminder_logs s) = ((r, created), logs1)"
    by (metis prod.exhaust)
  from get_or_create_keeps_rows [OF assms(1), of e "task_appointment_id t" "task_user_email t"
      "task_appointment_date t"] g
  have "x \<in> set logs1" by simp
  with assms Start g show ?thesis by (auto simp: Let_def)
next
  case (Mailed r)
  have "reminder_sent (r\<lparr>reminder_sent := True, reminder_sent_at := Some (now e)\<rparr>)" by simp
  from save_keeps_sent [OF assms this, of e] Mailed show ?thesis by (simp add: Let_def)
qed (use assms in \<open>auto simp: Let_def split: option.splits sum.splits prod.splits\<close>)

lemma sched_step_state:
  "snd (sched_step e i c) =
     (if i < length (fst c)
      then snd (worker_step e (fst (fst c ! i)) (snd (fst c ! i)) (snd c))
      else snd c)"
  by (cases c) (simp add: sched_step_def split: prod.splits)

lemma sched_step_unique_logs:
  "unique_appointment_id (reminder_logs (snd c)) \<Longrightarrow>
     unique_appointment_id (reminder_logs (snd (sched_step e i c)))"
  by (simp add: sched_step_state worker_step_unique_logs)

lemma sched_step_unique_templates:
  "unique_together (email_templates (snd c)) \<Longrightarrow>
     unique_together (email_templates (snd (sched_step e i c)))"
  by (simp add: sched_step_state worker_step_unique_templates)

lemma sched_step_keeps_sent:
  assumes "x \<in> set (reminder_logs (snd c))" and "reminder_sent x"
  shows "\<exists>y \<in> set (reminder_logs (snd (sched_step e i c))).
           appointment_id y = appointment_id x \<and> reminder_sent y"
proof (cases "i < length (fst c)")
  case True
  with worker_step_keeps_sent [OF assms, of e "fst (fst c ! i)" "snd (fst c ! i)"]
  show ?thesis by (simp add: sched_step_state)
next
  case False
  with assms show ?thesis by (auto simp: sched_step_state)
qed

lemma run_schedule_unique_logs:
  "unique_appointment_id (reminder_logs (snd c)) \<Longrightarrow>
     unique_appointment_id (reminder_logs (snd (run_schedule e sched c)))"
  by (induction sched arbitrary: c) (simp_all add: sched_step_unique_logs)

lemma run_schedule_unique_templates:
  "unique_together (email_templates (snd c)) \<Longrightarrow>
     unique_together (email_templates (snd (run_schedule e sched c)))"
  by (induction sched arbitrary: c) (simp_all add: sched_step_unique_templates)

lemma run_schedule_keeps_sent:
  "x \<in> set (reminder_logs (snd c)) \<Longrightarrow> reminder_sent x \<Longrightarrow>
     \<exists>y \<in> set (reminder_logs (snd (run_schedule e sched c))).
           appointment_id y = appointment_id x \<and> reminder_sent y"
proof (induction sched arbitrary: c x)
  case Nil
  then show ?case by auto
next
  case (Cons i sched)
  from sched_step_keeps_sent [OF Cons.prems, of e i]
  obtain y where y: "y \<in> set (reminder_logs (snd (sched_step e i c)))"
      "appointment_id y = appointment_id x" "reminder_sent y"
    by blast
  from Cons.IH [OF y(1) y(3)] y(2) show ?case by simp
qed

lemma run_schedule_append:
  "run_schedule e (xs @ ys) c = run_schedule e ys (run_schedule e xs c)"
  by (induction xs arbitrary: c) simp_all

subsection \<open>One invocation after the other\<close>

lemma row_is_sent_get_or_create:
  "row_is_sent aid (snd (get_or_create e a em d logs)) = row_is_sent aid logs"
proof (cases "lookup_log a logs")
  case None
  then show ?thesis
    by (auto simp: get_or_create_new row_is_sent_def lookup_log_append lookup_log_single
          new_reminder_log_def split: option.splits)
next
  case (Some r)
  then show ?thesis by (simp add: get_or_create_found)
qed

lemma row_is_sent_save:
  "row_is_sent aid (save e r logs) =
     (if aid = appointment_id r then reminder_sent r else row_is_sent aid logs)"
proof (cases "aid = appointment_id r")
  case True
  from lookup_save [of r e logs] obtain y where
    "lookup_log (appointment_id r) (save e r logs) = Some y" "reminder_sent y = reminder_sent r"
    by blast
  with True show ?thesis by (simp add: row_is_sent_def)
next
  case False
  then show ?thesis by (simp add: row_is_sent_def lookup_save_other)
qed

text \<open>
  What one run of \<open>send_reminder_email\<close> does: either it records no effect and changes
  the state of no row, or the row of its appointment was not Sent before and is Sent
  after, and its effects are at most one email, one save of that row, and the request to
  set the flag.
\<close>

lemma send_reminder_email_outcome:
  "(effects (snd (send_reminder_email e t s)) = effects s
      \<and> (\<forall>aid. row_is_sent aid (reminder_logs (snd (send_reminder_email e t s)))
                = row_is_sent aid (reminder_logs s)))
   \<or> (\<not> row_is_sent (task_appointment_id t) (reminder_logs s)
      \<and> (\<forall>aid. row_is_sent aid (reminder_logs (snd (send_reminder_email e t s)))
                = (aid = task_appointment_id t \<or> row_is_sent aid (reminder_logs s)))
      \<and> (\<exists>n r' m ok. n \<le> 1 \<and> appointment_id r' = task_appointment_id t
            \<and> effects (snd (send_reminder_email e t s)) =
                effects s @ replicate n (Mail m)
                  @ [LedgerSave r', MongoMark (task_appointment_id t) ok]))"
proof (cases "db_fault e")
  case (Some msg)
  then show ?thesis by (simp add: send_reminder_email_db_fault)
next
  case None
  let ?aid = "task_appointment_id t"
  obtain r created logs1 where g:
    "get_or_create e ?aid (task_user_email t) (task_appointment_date t) (reminder_logs s)
       = ((r, created), logs1)"
    by (metis prod.exhaust)
  have l1: "lookup_log ?aid logs1 = Some r" using g by (rule get_or_create_lookup)
  have rid: "appointment_id r = ?aid" using g by (rule get_or_create_row_id)
  have same1: "\<And>aid. row_is_sent aid logs1 = row_is_sent aid (reminder_logs s)"
    using row_is_sent_get_or_create [of _ e ?aid "task_user_email t" "task_appointment_date t"
        "reminder_logs s"] g by simp
  show ?thesis
  proof (cases "\<not> created \<and> reminder_sent r")
    case True
    with None g show ?thesis by (simp add: send_reminder_email_def same1)
  next
    case False
    then have guard: "created \<or> \<not> reminder_sent r" by blast
    have fresh: "created \<longrightarrow> \<not> reminder_sent r"
      using g
      by (cases "lookup_log ?aid (reminder_logs s)")
         (auto simp: get_or_create_found get_or_create_new new_reminder_log_def)
    with guard have unsent: "\<not> reminder_sent r" by blast
    with l1 have "\<not> row_is_sent ?aid logs1" by (simp add: row_is_sent_def)
    then have before: "\<not> row_is_sent ?aid (reminder_logs s)" by (simp add: same1)
    obtain template tpls where tpl: "resolve_template (email_templates s) = Inr (template, tpls)"
      using resolve_template_succeeds by blast
    note run = send_reminder_email_attempt [OF None g guard tpl]
    let ?ctx = "build_context e (task_appointment_date t) (task_appointment_data t)"
    show ?thesis
    proof (cases "render e template ?ctx")
      case None
      then show ?thesis by (simp add: run same1)
    next
      case (Some rendered)
      let ?m = "make_email e (task_user_email t) rendered"
      show ?thesis
      proof (cases "send_mail e ?m")
        case None
        with Some show ?thesis by (simp add: run same1)
      next
        case (Some n)
        let ?r' = "r\<lparr>reminder_sent := True, reminder_sent_at := Some (now e)\<rparr>"
        from Some have n: "n \<le> 1" by (auto simp: send_mail_cases)
        have eff: "effects (snd (send_reminder_email e t s)) =
            effects s @ replicate n (Mail ?m)
              @ [LedgerSave ?r',
                 MongoMark ?aid (fst (mark_reminder_sent e ?aid (collection s)))]"
          using \<open>render e template ?ctx = Some rendered\<close> Some by (simp add: run)
        have logs: "reminder_logs (snd (send_reminder_email e t s)) = save e ?r' logs1"
          using \<open>render e template ?ctx = Some rendered\<close> Some by (simp add: run)
        have rows: "\<forall>aid. row_is_sent aid (reminder_logs (snd (send_reminder_email e t s)))
                = (aid = ?aid \<or> row_is_sent aid (reminder_logs s))"
          unfolding logs using rid before by (auto simp: row_is_sent_save same1)
        have "appointment_id ?r' = ?aid" using rid by simp
        with n eff have "\<exists>n r' m ok. n \<le> 1 \<and> appointment_id r' = ?aid
            \<and> effects (snd (send_reminder_email e t s)) =
                effects s @ replicate n (Mail m) @ [LedgerSave r', MongoMark ?aid ok]"
          by blast
        with before rows show ?thesis by blast
      qed
    qed
  qed
qed

lemma sent_transitions_append:
  "sent_transitions aid category (xs @ ys)
     = sent_transitions aid category xs @ sent_transitions aid category ys"
  by (simp add: sent_transitions_def)

lemma sent_transitions_mails: "sent_transitions aid category (replicate n (Mail m)) = []"
  by (induction n) (simp_all add: sent_transitions_def)

lemma outbox_effects_append:
  "outbox (s\<lparr>effects := xs @ ys\<rparr>) = outbox (s\<lparr>effects := xs\<rparr>) @ outbox (s\<lparr>effects := ys\<rparr>)"
  by (simp add: outbox_def)

lemma send_reminder_email_transitions:
  "length (sent_transitions aid category (effects (snd (send_reminder_email e t s))))
     + (if row_is_sent aid (reminder_logs (snd (send_reminder_email e t s))) then 0 else 1)
   \<le> length (sent_transitions aid category (effects s))
     + (if row_is_sent aid (reminder_logs s) then 0 else 1)"
  using send_reminder_email_outcome [of e t s]
proof (elim disjE conjE exE)
  assume "effects (snd (send_reminder_email e t s)) = effects s"
    and "\<forall>aid. row_is_sent aid (reminder_logs (snd (send_reminder_email e t s)))
                = row_is_sent aid (reminder_logs s)"
  then show ?thesis by simp
next
  fix n r' m ok
  assume before: "\<not> row_is_sent (task_appointment_id t) (reminder_logs s)"
    and rows: "\<forall>aid. row_is_sent aid (reminder_logs (snd (send_reminder_email e t s)))
                = (aid = task_appointment_id t \<or> row_is_sent aid (reminder_logs s))"
    and rid: "appointment_id r' = task_appointment_id t"
    and eff: "effects (snd (send_reminder_email e t s)) =
                effects s @ replicate n (Mail m)
                  @ [LedgerSave r', MongoMark (task_appointment_id t) ok]"
  show ?thesis
  proof (cases "aid = task_appointment_id t")
    case True
    have "length (sent_transitions aid category (effects (snd (send_reminder_email e t s))))
            \<le> length (sent_transitions aid category (effects s)) + 1"
      unfolding eff
      by (simp add: sent_transitions_append sent_transitions_mails) (simp add: sent_transitions_def)
    with True before rows show ?thesis by simp
  next
    case False
    with rid have "sent_transitions aid category (effects (snd (send_reminder_email e t s)))
            = sent_transitions aid category (effects s)"
      unfolding eff
      by (simp add: sent_transitions_append sent_transitions_mails) (simp add: sent_transitions_def)
    with False rows show ?thesis by simp
  qed
qed

lemma send_reminder_email_mails:
  assumes "task_appointment_id t = aid"
  shows "length (outbox (snd (send_reminder_email e t s)))
     + (if row_is_sent aid (reminder_logs (snd (send_reminder_email e t s))) then 0 else 1)
   \<le> length (outbox s) + (if row_is_sent aid (reminder_logs s) then 0 else 1)"
  using send_reminder_email_outcome [of e t s]
proof (elim disjE conjE exE)
  assume "effects (snd (send_reminder_email e t s)) = effects s"
    and "\<forall>aid. row_is_sent aid (reminder_logs (snd (send_reminder_email e t s)))
                = row_is_sent aid (reminder_logs s)"
  then show ?thesis by (simp add: outbox_def)
next
  fix n r' m ok
  assume before: "\<not> row_is_sent (task_appointment_id t) (reminder_logs s)"
    and rows: "\<forall>aid. row_is_sent aid (reminder_logs (snd (send_reminder_email e t s)))
                = (aid = task_appointment_id t \<or> row_is_sent aid (reminder_logs s))"
    and n: "n \<le> 1"
    and eff: "effects (snd (send_reminder_email e t s)) =
                effects s @ replicate n (Mail m)
                  @ [LedgerSave r', MongoMark (task_appointment_id t) ok]"
  have "length (outbox (snd (send_reminder_email e t s))) = length (outbox s) + n"
    by (simp add: outbox_def eff outbox_replicate)
  with n assms before rows show ?thesis by simp
qed

lemma run_tasks_transitions:
  "length (sent_transitions aid category (effects (snd (run_tasks e ts s))))
     + (if row_is_sent aid (reminder_logs (snd (run_tasks e ts s))) then 0 else 1)
   \<le> length (sent_transitions aid category (effects s))
     + (if row_is_sent aid (reminder_logs s) then 0 else 1)"
proof (induction ts arbitrary: s)
  case Nil
  show ?case by simp
next
  case (Cons t ts)
  have "snd (run_tasks e (t # ts) s) = snd (run_tasks e ts (snd (send_reminder_email e t s)))"
    by (simp add: Let_def case_prod_beta)
  then show ?case
    using Cons.IH [of "snd (send_reminder_email e t s)"]
      send_reminder_email_transitions [of aid category e t s]
    by simp
qed

lemma run_tasks_mails:
  assumes "\<forall>t \<in> set ts. task_appointment_id t = aid"
  shows "length (outbox (snd (run_tasks e ts s)))
     + (if row_is_sent aid (reminder_logs (snd (run_tasks e ts s))) then 0 else 1)
   \<le> length (outbox s) + (if row_is_sent aid (reminder_logs s) then 0 else 1)"
  using assms
proof (induction ts arbitrary: s)
  case Nil
  show ?case by simp
next
  case (Cons t ts)
  have "snd (run_tasks e (t # ts) s) = snd (run_tasks e ts (snd (send_reminder_email e t s)))"
    by (simp add: Let_def case_prod_beta)
  moreover from Cons.prems have "task_appointment_id t = aid"
    and "\<forall>t \<in> set ts. task_appointment_id t = aid" by simp_all
  ultimately show ?case
    using Cons.IH [of "snd (send_reminder_email e t s)"]
      send_reminder_email_mails [of t aid e s]
    by simp
qed

text \<open>
  Claim C1 as stated fails. Two workers run \<open>send_reminder_email\<close> for \<open>a1\<close> at the
  same time. Both pass the claim step before either saves (the second finds the row in
  state Claimed, which does not stop it); both reach the gateway and both take the row
  to Sent: two transitions to Sent for \<open>a1\<close> in category \<open>15min\<close>, and two emails.
\<close>
theorem concurrent_transitions_counterexample:
  "sent_transitions ''a1'' ''15min'' (effects example_state) = []
   \<and> length (sent_transitions ''a1'' ''15min''
        (effects (snd (run_schedule example_env [0, 1, 0, 1, 0, 1, 0, 1, 0, 1]
                  (start_config [example_task, example_task] example_state))))) = 2
   \<and> outbox (snd (run_schedule example_env [0, 1, 0, 1, 0, 1, 0, 1, 0, 1]
                  (start_config [example_task, example_task] example_state)))
       = [example_email, example_email]"
  by (simp add: start_config_def sched_step_def sent_transitions_def
        example_task_def example_env_def example_state_def
        example_log_def example_appointment_def example_template_def
        example_email_def task_of_def from_bson_def to_bson_def get_or_create_def
        lookup_log_def new_reminder_log_def active_template_def render_def
        format_without_fields_def make_email_def build_context_def save_def
        send_mail_def recipients_def mark_reminder_sent_def outbox_def Let_def)

text \<open>
  Claim C1, amended. For every appointment identifier the ledger holds at most one row,
  so at most one row is in state Sent for it within a reminder category, under any
  schedule of any number of concurrent runs of \<open>send_reminder_email\<close>, and a row that
  is Sent is Sent in every later configuration. When the runs come one after the other,
  at most one of them takes the row of the appointment to Sent (none when the row is
  Sent already), and runs for the same appointment dispatch at most one email. Runs
  that overlap in time are not bounded in this way.
\<close>
theorem one_sent_row_one_sequential_transition:
  assumes "unique_appointment_id (reminder_logs s0)"
  shows "length (sent_records aid category
                  (reminder_logs (snd (run_schedule e sched (start_config ts s0))))) \<le> 1
       \<and> unique_appointment_id (reminder_logs (snd (run_schedule e sched (start_config ts s0))))
       \<and> (\<forall>x \<in> set (reminder_logs (snd (run_schedule e sched (start_config ts s0)))).
             reminder_sent x \<longrightarrow>
               (\<exists>y \<in> set (reminder_logs
                            (snd (run_schedule e (sched @ later) (start_config ts s0)))).
                  appointment_id y = appointment_id x \<and> reminder_sent y))
       \<and> length (sent_transitions aid category (effects (snd (run_tasks e ts s0))))
           \<le> length (sent_transitions aid category (effects s0)) + 1
       \<and> (row_is_sent aid (reminder_logs s0) \<longrightarrow>
            length (sent_transitions aid category (effects (snd (run_tasks e ts s0))))
              \<le> length (sent_transitions aid category (effects s0)))
       \<and> ((\<forall>t \<in> set ts. task_appointment_id t = aid) \<longrightarrow>
            length (outbox (snd (run_tasks e ts s0))) \<le> length (outbox s0) + 1)"
proof -
  have "unique_appointment_id (reminder_logs (snd (start_config ts s0)))"
    using assms by (simp add: start_config_def)
  then have u: "unique_appointment_id
                  (reminder_logs (snd (run_schedule e sched (start_config ts s0))))"
    by (rule run_schedule_unique_logs)
  then have one: "length (sent_records aid category
                  (reminder_logs (snd (run_schedule e sched (start_config ts s0))))) \<le> 1"
    by (rule unique_sent_records)
  have mono: "\<forall>x \<in> set (reminder_logs (snd (run_schedule e sched (start_config ts s0)))).
             reminder_sent x \<longrightarrow>
               (\<exists>y \<in> set (reminder_logs
                            (snd (run_schedule e (sched @ later) (start_config ts s0)))).
                  appointment_id y = appointment_id x \<and> reminder_sent y)"
    by (simp add: run_schedule_append run_schedule_keeps_sent)
  note tr = run_tasks_transitions [of aid category e ts s0]
  have seq: "length (sent_transitions aid category (effects (snd (run_tasks e ts s0))))
           \<le> length (sent_transitions aid category (effects s0)) + 1"
    using tr by (simp split: if_splits)
  have seq0: "row_is_sent aid (reminder_logs s0) \<longrightarrow>
            length (sent_transitions aid category (effects (snd (run_tasks e ts s0))))
              \<le> length (sent_transitions aid category (effects s0))"
    using tr by (simp split: if_splits)
  have mails: "(\<forall>t \<in> set ts. task_appointment_id t = aid) \<longrightarrow>
            length (outbox (snd (run_tasks e ts s0))) \<le> length (outbox s0) + 1"
  proof
    assume "\<forall>t \<in> set ts. task_appointment_id t = aid"
    from run_tasks_mails [OF this, of e s0]
    show "length (outbox (snd (run_tasks e ts s0))) \<le> length (outbox s0) + 1"
      by (simp split: if_splits)
  qed
  from one u mono seq seq0 mails show ?thesis by blast
qed

text \<open>
  Claim C8. On a template table that satisfies \<open>unique_together\<close>: when no active
  \<open>15min\<close> template exists, \<open>create_default_email_template\<close> adds exactly one, and a
  second call then raises \<open>IntegrityError\<close>; when one exists, the call raises and adds
  nothing. Under any schedule of concurrent workers the table keeps \<open>unique_together\<close>
  and holds at most one active template for every category.
\<close>
theorem default_template_creation_idempotent:
  assumes "unique_together (email_templates s)"
  shows "(active_templates ''15min'' (email_templates s) = [] \<longrightarrow>
            (\<exists>template.
               create_default_email_template (email_templates s)
                 = Inr (template, email_templates s @ [template])
               \<and> active_templates ''15min'' (email_templates s @ [template]) = [template]
               \<and> unique_together (email_templates s @ [template])
               \<and> create_default_email_template (email_templates s @ [template])
                   = Inl IntegrityError))
       \<and> (active_templates ''15min'' (email_templates s) \<noteq> [] \<longrightarrow>
            create_default_email_template (email_templates s) = Inl IntegrityError)
       \<and> unique_together (email_templates (snd (run_schedule e sched (start_config ts s))))
       \<and> length (active_templates category
                   (email_templates (snd (run_schedule e sched (start_config ts s))))) \<le> 1"
proof -
  have first: "active_templates ''15min'' (email_templates s) = [] \<longrightarrow>
            (\<exists>template.
               create_default_email_template (email_templates s)
                 = Inr (template, email_templates s @ [template])
               \<and> active_templates ''15min'' (email_templates s @ [template]) = [template]
               \<and> unique_together (email_templates s @ [template])
               \<and> create_default_email_template (email_templates s @ [template])
                   = Inl IntegrityError)"
  proof
    assume none: "active_templates ''15min'' (email_templates s) = []"
    from create_default_no_active [OF none] obtain template where
      t: "create_default_email_template (email_templates s)
            = Inr (template, email_templates s @ [template])"
         "active_templates ''15min'' (email_templates s @ [template]) = [template]"
      by blast
    from create_default_unique [OF assms t(1)]
    have u: "unique_together (email_templates s @ [template])" .
    from t(2) have "active_templates ''15min'' (email_templates s @ [template]) \<noteq> []" by simp
    then have "create_default_email_template (email_templates s @ [template]) = Inl IntegrityError"
      by (rule create_default_active)
    with t u show "\<exists>template.
               create_default_email_template (email_templates s)
                 = Inr (template, email_templates s @ [template])
               \<and> active_templates ''15min'' (email_templates s @ [template]) = [template]
               \<and> unique_together (email_templates s @ [template])
               \<and> create_default_email_template (email_templates s @ [template])
                   = Inl IntegrityError"
      by blast
  qed
  have "unique_together (email_templates (snd (start_config ts s)))"
    using assms by (simp add: start_config_def)
  then have u: "unique_together (email_templates (snd (run_schedule e sched (start_config ts s))))"
    by (rule run_schedule_unique_templates)
  from first create_default_active u unique_active_templates [OF u] show ?thesis by blast
qed

subsection \<open>The scan\<close>

lemma queue_reminders_eq:
  "queue_reminders e as n q =
     (n + length (filter (\<lambda>a. broker_accepts e (task_of a)) as),
      q @ map task_of (filter (\<lambda>a. broker_accepts e (task_of a)) as))"
  by (induction as arbitrary: n q) auto

lemma run_tasks_length: "length (fst (run_tasks e ts s)) = length ts"
  by (induction ts arbitrary: s) (simp_all add: Let_def case_prod_beta)

text \<open>
  Claim C9, amended. Every scan tick handles each candidate on its own: a candidate
  whose task cannot be queued does not stop the ones after it, and a worker runs every
  queued task whatever the results of the earlier ones. The summary is the status and
  one count, \<open>reminders_sent\<close>, the number of candidates whose task was queued.
\<close>
theorem scan_summary_counts_queued:
  "check_and_send_reminders e s =
     ([(''status'', Str ''success''),
       (''reminders_sent'',
        Num (int (length (filter (\<lambda>a. broker_accepts e (task_of a))
                            (get_appointments_for_reminder e 15 (collection s))))))],
      map task_of (filter (\<lambda>a. broker_accepts e (task_of a))
                     (get_appointments_for_reminder e 15 (collection s))))
   \<and> length (fst (run_tasks e ts s2)) = length ts"
  by (simp add: check_and_send_reminders_def Let_def queue_reminders_eq run_tasks_length)

text \<open>
  Claim C9 as stated fails. Three scans find the same single candidate: in the first its
  email is dispatched, in the second the gateway refuses it, in the third its row is
  already Sent and nothing is dispatched. All three summaries are the same two items,
  \<open>status\<close> and \<open>reminders_sent = 1\<close>: the summary holds no count of dispatched, of
  skipped or of failed attempts.
\<close>
theorem scan_summary_counterexample:
  "fst (check_and_send_reminders example_env example_state) =
     [(''status'', Str ''success''), (''reminders_sent'', Num 1)]
   \<and> fst (check_and_send_reminders refusing_env example_state) =
     [(''status'', Str ''success''), (''reminders_sent'', Num 1)]
   \<and> fst (check_and_send_reminders example_env (ledger_state True)) =
     [(''status'', Str ''success''), (''reminders_sent'', Num 1)]
   \<and> fst (run_tasks example_env
            (snd (check_and_send_reminders example_env example_state)) example_state) = [True]
   \<and> outbox (snd (run_tasks example_env
            (snd (check_and_send_reminders example_env example_state)) example_state))
       = [example_email]
   \<and> fst (run_tasks refusing_env
            (snd (check_and_send_reminders refusing_env
                    example_state)) example_state) = [False]
   \<and> outbox (snd (run_tasks example_env
            (snd (check_and_send_reminders example_env (ledger_state True))) (ledger_state True)))
       = []"
  by (simp add: check_and_send_reminders_def get_appointments_for_reminder_def
        reminder_query_def timedelta_minutes_def refusing_env_def example_env_def example_state_def
        ledger_state_def example_log_def example_appointment_def example_template_def
        example_email_def task_of_def send_reminder_email_def get_or_create_def lookup_log_def
        new_reminder_log_def resolve_template_def active_template_def render_def
        format_without_fields_def make_email_def build_context_def save_def
        send_mail_def recipients_def from_bson_def to_bson_def
        mark_reminder_sent_def outbox_def Let_def)

text \<open>
  Claim C2 as stated fails: with a row for \<open>a1\<close> in state Claimed at the start, the
  attempt is not stopped; it returns \<open>True\<close> and one email reaches the gateway.
\<close>
theorem claimed_record_counterexample:
  "lookup_log ''a1'' (reminder_logs (ledger_state False))
     = Some (example_log ''a1'' False 8640000000000)
   \<and> \<not> reminder_sent (example_log ''a1'' False 8640000000000)
   \<and> task_appointment_id example_task = ''a1''
   \<and> outbox (ledger_state False) = []
   \<and> fst (send_reminder_email example_env example_task (ledger_state False)) = True
   \<and> outbox (snd (send_reminder_email example_env example_task (ledger_state False)))
       = [example_email]"
  by (simp add: example_task_def example_env_def example_state_def
        ledger_state_def example_log_def example_appointment_def example_template_def
        example_email_def task_of_def send_reminder_email_def get_or_create_def lookup_log_def
        new_reminder_log_def resolve_template_def active_template_def render_def
        format_without_fields_def make_email_def build_context_def save_def
        send_mail_def recipients_def from_bson_def to_bson_def
        mark_reminder_sent_def outbox_def Let_def)

subsection \<open>send\_custom\_reminder\<close>

lemma resolve_template_15min:
  assumes "resolve_template tpls = Inr (template, tpls')"
  shows "template_type template = ''15min'' \<and> is_active template
         \<and> (\<forall>t0. active_template tpls = Some t0 \<longrightarrow> template = t0)"
proof (cases "active_template tpls")
  case None
  with assms have "create_default_email_template tpls = Inr (template, tpls')"
    by (simp add: resolve_template_def)
  then have "template_type template = ''15min'' \<and> is_active template"
    by (auto simp: create_default_email_template_def Let_def split: sum.splits)
  with None show ?thesis by simp
next
  case (Some t0)
  with assms have "template = t0" by (simp add: resolve_template_def)
  moreover from Some have "template_type t0 = ''15min'' \<and> is_active t0"
    by (auto simp: active_template_def find_Some_iff)
  ultimately show ?thesis using Some by simp
qed

lemma created_record_is_15min:
  assumes "db_fault e = None"
    and "lookup_log (task_appointment_id t) (reminder_logs s) = None"
  shows "\<exists>r. lookup_log (task_appointment_id t) (reminder_logs (snd (send_reminder_email e t s)))
               = Some r \<and> reminder_type r = ''15min''"
proof -
  let ?new = "new_reminder_log e (task_appointment_id t) (task_user_email t) (task_appointment_date t)"
  let ?logs1 = "reminder_logs s @ [?new]"
  let ?r' = "?new\<lparr>reminder_sent := True, reminder_sent_at := Some (now e)\<rparr>"
  have g: "get_or_create e (task_appointment_id t) (task_user_email t) (task_appointment_date t)
             (reminder_logs s) = ((?new, True), ?logs1)"
    using assms(2) by (rule get_or_create_new)
  have l1: "lookup_log (task_appointment_id t) ?logs1 = Some ?new"
    using g by (rule get_or_create_lookup)
  have "lookup_log (appointment_id ?r') ?logs1 = Some ?new"
    using l1 by (simp add: new_reminder_log_def)
  then have "lookup_log (appointment_id ?r') (save e ?r' ?logs1) = Some (?r'\<lparr>updated_at := now e\<rparr>)"
    by (rule lookup_save_existing)
  then have l2: "lookup_log (task_appointment_id t) (save e ?r' ?logs1)
                   = Some (?r'\<lparr>updated_at := now e\<rparr>)"
    by (simp add: new_reminder_log_def)
  have ty: "reminder_type ?new = ''15min''" "reminder_type (?r'\<lparr>updated_at := now e\<rparr>) = ''15min''"
    by (simp_all add: new_reminder_log_def)
  obtain template tpls where tpl: "resolve_template (email_templates s) = Inr (template, tpls)"
    using resolve_template_succeeds by blast
  have c: "True \<or> \<not> reminder_sent ?new" by simp
  note run = send_reminder_email_attempt [OF assms(1) g c tpl]
  show ?thesis
    unfolding run using l1 l2 ty by (auto split: option.splits)
qed

text \<open>
  Claim C10. \<open>send_custom_reminder\<close> gives the same result for any two values of
  \<open>reminder_type\<close>; the task it queues is for the given appointment; a row created by
  running a task has \<open>reminder_type = '15min'\<close>; and the template that is resolved is an
  active \<open>15min\<close> template, the one the query finds when there is one.
\<close>
theorem reminder_type_argument_ignored:
  "send_custom_reminder e aid rt1 s = send_custom_reminder e aid rt2 s
   \<and> (\<forall>t. send_custom_reminder e aid rt1 s = Some t \<longrightarrow> task_appointment_id t = aid)
   \<and> (db_fault e = None \<longrightarrow> lookup_log (task_appointment_id t2) (reminder_logs s2) = None \<longrightarrow>
        (\<exists>r. lookup_log (task_appointment_id t2)
                (reminder_logs (snd (send_reminder_email e t2 s2))) = Some r
              \<and> reminder_type r = ''15min''))
   \<and> (resolve_template tpls = Inr (template, tpls') \<longrightarrow>
        template_type template = ''15min'' \<and> is_active template
        \<and> (\<forall>t0. active_template tpls = Some t0 \<longrightarrow> template = t0))"
proof -
  have same: "send_custom_reminder e aid rt1 s = send_custom_reminder e aid rt2 s"
    by (simp add: send_custom_reminder_def)
  have tid: "\<forall>t. send_custom_reminder e aid rt1 s = Some t \<longrightarrow> task_appointment_id t = aid"
    by (auto simp: send_custom_reminder_def Let_def split: option.splits if_splits)
  from same tid created_record_is_15min resolve_template_15min show ?thesis by blast
qed

subsection \<open>The theorems at concrete inputs\<close>

lemmas example_defs =
  example_task_def example_env_def example_state_def ledger_state_def example_log_def
  example_appointment_def example_template_def broken_template_def example_email_def
  task_of_def from_bson_def to_bson_def get_or_create_def lookup_log_def new_reminder_log_def
  resolve_template_def active_template_def render_def format_without_fields_def make_email_def
  build_context_def save_def send_mail_def recipients_def mark_reminder_sent_def outbox_def
  Let_def

theorem one_sent_row_one_sequential_transition_witness:
  "unique_appointment_id (reminder_logs example_state)
   \<and> length (sent_records ''a1'' ''15min''
        (reminder_logs (snd (run_schedule example_env [0, 1, 0, 1, 0, 1, 0, 1, 0, 1]
                  (start_config [example_task, example_task] example_state))))) \<le> 1
   \<and> sent_transitions ''a1'' ''15min'' (effects example_state) = []
   \<and> length (sent_transitions ''a1'' ''15min''
        (effects (snd (run_tasks example_env [example_task, example_task] example_state)))) \<le> 1
   \<and> task_appointment_id example_task = ''a1''
   \<and> outbox example_state = []
   \<and> length (outbox (snd (run_tasks example_env [example_task, example_task] example_state)))
       \<le> 1"
proof -
  have h: "unique_appointment_id (reminder_logs example_state)"
    by (simp add: unique_appointment_id_def example_state_def)
  have t0: "sent_transitions ''a1'' ''15min'' (effects example_state) = []"
    by (simp add: sent_transitions_def example_state_def)
  have tid: "task_appointment_id example_task = ''a1''" by (simp add: example_defs)
  have ob: "outbox example_state = []" by (simp add: example_defs)
  from one_sent_row_one_sequential_transition [OF h, where aid = "''a1''"
      and category = "''15min''" and e = example_env
      and sched = "[0, 1, 0, 1, 0, 1, 0, 1, 0, 1]"
      and ts = "[example_task, example_task]" and later = "[]"] h t0 tid ob
  show ?thesis by simp
qed

theorem sent_record_is_final_witness:
  "lookup_log (task_appointment_id example_task) (reminder_logs (ledger_state True))
     = Some (example_log ''a1'' True 8640000000000)
   \<and> reminder_sent (example_log ''a1'' True 8640000000000)
   \<and> snd (send_reminder_email example_env example_task (ledger_state True)) = ledger_state True
   \<and> outbox (snd (send_reminder_email example_env example_task (ledger_state True))) = []"
proof -
  have h1: "lookup_log (task_appointment_id example_task) (reminder_logs (ledger_state True))
     = Some (example_log ''a1'' True 8640000000000)"
    by (simp add: example_defs)
  have h2: "reminder_sent (example_log ''a1'' True 8640000000000)"
    by (simp add: example_log_def)
  have h3: "outbox (ledger_state True) = []" by (simp add: example_defs)
  from sent_record_is_final [OF h1 h2, where e = example_env] h1 h2 h3
  show ?thesis by simp
qed

theorem claimed_record_is_retried_witness:
  "db_fault example_env = None
   \<and> lookup_log (task_appointment_id example_task) (reminder_logs (ledger_state False))
       = Some (example_log ''a1'' False 8640000000000)
   \<and> \<not> reminder_sent (example_log ''a1'' False 8640000000000)
   \<and> send_mail example_env example_email = Some 1
   \<and> fst (send_reminder_email example_env example_task (ledger_state False)) = True
   \<and> outbox (snd (send_reminder_email example_env example_task (ledger_state False)))
       = outbox (ledger_state False) @ [example_email]
   \<and> row_is_sent ''a1''
       (reminder_logs (snd (send_reminder_email example_env example_task (ledger_state False))))"
proof -
  let ?rendered = "(''Appointment reminder'', ''Your appointment is in 15 minutes.'',
                     ''<p>Your appointment is in 15 minutes.</p>'')"
  have h1: "db_fault example_env = None" by (simp add: example_env_def)
  have h2: "lookup_log (task_appointment_id example_task) (reminder_logs (ledger_state False))
       = Some (example_log ''a1'' False 8640000000000)"
    by (simp add: example_defs)
  have h3: "\<not> reminder_sent (example_log ''a1'' False 8640000000000)"
    by (simp add: example_log_def)
  have tpl: "resolve_template (email_templates (ledger_state False))
               = Inr (example_template, [example_template])"
    by (simp add: example_defs)
  have ren: "render example_env example_template
               (build_context example_env (task_appointment_date example_task)
                  (task_appointment_data example_task)) = Some ?rendered"
    by (simp add: example_defs)
  have mail: "make_email example_env (task_user_email example_task) ?rendered = example_email"
    by (simp add: example_defs)
  have sm: "send_mail example_env example_email = Some 1" by (simp add: example_defs)
  then have sm': "send_mail example_env
                    (make_email example_env (task_user_email example_task) ?rendered) = Some 1"
    by (simp add: mail)
  have tid: "task_appointment_id example_task = ''a1''" by (simp add: example_defs)
  from claimed_record_is_retried [OF h1 h2] h3 tpl ren sm'
  have "fst (send_reminder_email example_env example_task (ledger_state False)) = True
      \<and> outbox (snd (send_reminder_email example_env example_task (ledger_state False))) =
          outbox (ledger_state False)
            @ replicate 1 (make_email example_env (task_user_email example_task) ?rendered)
      \<and> lookup_log (task_appointment_id example_task)
          (reminder_logs (snd (send_reminder_email example_env example_task (ledger_state False))))
        = Some ((example_log ''a1'' False 8640000000000)
                  \<lparr>reminder_sent := True, reminder_sent_at := Some (now example_env),
                   updated_at := now example_env\<rparr>)"
    by blast
  with h1 h2 h3 sm show ?thesis by (simp add: mail tid row_is_sent_def)
qed

theorem failed_attempt_stays_claimed_witness:
  "db_fault example_env = None
   \<and> lookup_log ''a1'' (reminder_logs (example_state\<lparr>email_templates := [broken_template]\<rparr>)) = None
   \<and> render example_env broken_template
        (build_context example_env (task_appointment_date example_task)
           (task_appointment_data example_task)) = None
   \<and> fst (send_reminder_email example_env example_task
            (example_state\<lparr>email_templates := [broken_template]\<rparr>)) = False
   \<and> outbox (snd (send_reminder_email example_env example_task
            (example_state\<lparr>email_templates := [broken_template]\<rparr>))) = []
   \<and> lookup_log ''a1'' (reminder_logs (snd (send_reminder_email example_env example_task
            (example_state\<lparr>email_templates := [broken_template]\<rparr>))))
       = Some (new_reminder_log example_env ''a1'' ''u@x.com'' 8640900000000)"
proof -
  let ?s = "example_state\<lparr>email_templates := [broken_template]\<rparr>"
  let ?new = "new_reminder_log example_env ''a1'' ''u@x.com'' 8640900000000"
  have h1: "db_fault example_env = None" by (simp add: example_env_def)
  have h2: "get_or_create example_env (task_appointment_id example_task)
              (task_user_email example_task) (task_appointment_date example_task)
              (reminder_logs ?s) = ((?new, True), [?new])"
    by (simp add: example_task_def example_state_def example_appointment_def task_of_def
          from_bson_def get_or_create_def lookup_log_def Let_def)
  have h3: "True \<or> \<not> reminder_sent ?new" by simp
  have h4: "resolve_template (email_templates ?s) = Inr (broken_template, [broken_template])"
    by (simp add: example_defs)
  have ren: "render example_env broken_template
        (build_context example_env (task_appointment_date example_task)
           (task_appointment_data example_task)) = None"
    by (simp add: example_defs)
  then have h5: "render example_env broken_template
        (build_context example_env (task_appointment_date example_task)
           (task_appointment_data example_task)) = None
      \<or> (\<exists>rendered. render example_env broken_template
        (build_context example_env (task_appointment_date example_task)
           (task_appointment_data example_task)) = Some rendered
           \<and> send_mail example_env
               (make_email example_env (task_user_email example_task) rendered) = None)"
    by simp
  have none: "lookup_log ''a1'' (reminder_logs ?s) = None" by (simp add: example_defs)
  have ob: "outbox ?s = []" by (simp add: example_defs)
  have tid: "task_appointment_id example_task = ''a1''" by (simp add: example_defs)
  from failed_attempt_stays_claimed [OF h1 h2 h3 h4 h5] h1 none ren ob tid
  show ?thesis by (simp add: lookup_log_single)
qed

theorem cleanup_old_reminders_retention_witness:
  "db_fault example_env = None
   \<and> reminder_logs (snd (cleanup_old_reminders example_env sweep_state)) =
       [example_log ''boundary'' False 6048000000000, example_log ''young'' True 6048001000000]
   \<and> fst (cleanup_old_reminders example_env sweep_state) =
       [(''status'', Str ''success''), (''deleted_count'', Num 2)]"
proof -
  have h: "db_fault example_env = None" by (simp add: example_env_def)
  have n: "now example_env = 8640000000000" by (simp add: example_env_def)
  from cleanup_old_reminders_retention [OF h, of sweep_state] h
  show ?thesis
    by (simp add: n sweep_state_def example_state_def example_log_def)
qed

theorem get_appointments_for_reminder_window_witness:
  "\<not> mongo_read_fault example_env
   \<and> utcnow example_env mod 1000 = 0
   \<and> map doc_id (get_appointments_for_reminder example_env 15 window_collection)
       = [''start'', ''end'']"
proof -
  have h: "\<not> mongo_read_fault example_env" by (simp add: example_env_def)
  have n: "utcnow example_env = 8640000000000" by (simp add: example_env_def)
  from get_appointments_for_reminder_window [OF h, of window_collection] h
  show ?thesis
    by (simp add: n window_collection_def example_appointment_def from_bson_def)
qed

theorem finalize_then_mark_witness:
  "db_fault example_env = None \<and> db_fault readonly_env = None
   \<and> recipients example_email \<noteq> []
   \<and> smtp_accepts example_env example_email \<and> smtp_accepts readonly_env example_email
   \<and> \<not> mongo_write_fault example_env \<and> mongo_write_fault readonly_env
   \<and> lookup_appointment ''a1'' (collection example_state) = Some example_appointment
   \<and> reminderSent example_appointment = None
   \<and> fst (send_reminder_email example_env example_task example_state) = True
   \<and> effects (snd (send_reminder_email example_env example_task example_state)) =
       [Mail example_email,
        LedgerSave (example_log ''a1'' True 8640000000000),
        MongoMark ''a1'' True]
   \<and> lookup_appointment ''a1''
        (collection (snd (send_reminder_email example_env example_task example_state)))
       = Some (example_appointment\<lparr>reminderSent := Some True,
                                    reminderSentAt := Some 8640000000\<rparr>)
   \<and> lookup_log ''a1''
        (reminder_logs (snd (send_reminder_email example_env example_task example_state)))
       = Some (example_log ''a1'' True 8640000000000)
   \<and> fst (send_reminder_email readonly_env example_task example_state) = True
   \<and> effects (snd (send_reminder_email readonly_env example_task example_state)) =
       [Mail example_email,
        LedgerSave (example_log ''a1'' True 8640000000000),
        MongoMark ''a1'' False]
   \<and> collection (snd (send_reminder_email readonly_env example_task example_state))
       = collection example_state
   \<and> lookup_log ''a1''
        (reminder_logs (snd (send_reminder_email readonly_env example_task example_state)))
       = Some (example_log ''a1'' True 8640000000000)"
proof -
  let ?new = "new_reminder_log example_env ''a1'' ''u@x.com'' 8640900000000"
  let ?new2 = "new_reminder_log readonly_env ''a1'' ''u@x.com'' 8640900000000"
  let ?rendered = "(''Appointment reminder'', ''Your appointment is in 15 minutes.'',
                     ''<p>Your appointment is in 15 minutes.</p>'')"
  have h1: "db_fault example_env = None" by (simp add: example_env_def)
  have k1: "db_fault readonly_env = None" by (simp add: readonly_env_def example_env_def)
  have h2: "get_or_create example_env (task_appointment_id example_task)
              (task_user_email example_task) (task_appointment_date example_task)
              (reminder_logs example_state) = ((?new, True), [?new])"
    by (simp add: example_task_def example_state_def example_appointment_def task_of_def
          from_bson_def get_or_create_def lookup_log_def Let_def)
  have k2: "get_or_create readonly_env (task_appointment_id example_task)
              (task_user_email example_task) (task_appointment_date example_task)
              (reminder_logs example_state) = ((?new2, True), [?new2])"
    by (simp add: example_task_def example_state_def example_appointment_def task_of_def
          from_bson_def get_or_create_def lookup_log_def Let_def)
  have h3: "True \<or> \<not> reminder_sent ?new" by simp
  have k3: "True \<or> \<not> reminder_sent ?new2" by simp
  have h4: "resolve_template (email_templates example_state)
              = Inr (example_template, [example_template])"
    by (simp add: example_defs)
  have h5: "render example_env example_template
               (build_context example_env (task_appointment_date example_task)
                  (task_appointment_data example_task)) = Some ?rendered"
    by (simp add: example_defs)
  have k5: "render readonly_env example_template
               (build_context readonly_env (task_appointment_date example_task)
                  (task_appointment_data example_task)) = Some ?rendered"
    by (simp add: example_defs readonly_env_def)
  have mail: "make_email example_env (task_user_email example_task) ?rendered = example_email"
    by (simp add: example_defs)
  have mail2: "make_email readonly_env (task_user_email example_task) ?rendered = example_email"
    by (simp add: example_defs readonly_env_def)
  have rc: "recipients example_email \<noteq> []" by (simp add: example_defs)
  have h6: "recipients (make_email example_env (task_user_email example_task) ?rendered) \<noteq> []"
    using rc by (simp add: mail)
  have k6: "recipients (make_email readonly_env (task_user_email example_task) ?rendered) \<noteq> []"
    using rc by (simp add: mail2)
  have smtp: "smtp_accepts example_env example_email" by (simp add: example_env_def)
  have smtp2: "smtp_accepts readonly_env example_email"
    by (simp add: readonly_env_def example_env_def)
  have h7: "smtp_accepts example_env
              (make_email example_env (task_user_email example_task) ?rendered)"
    using smtp by (simp add: mail)
  have k7: "smtp_accepts readonly_env
              (make_email readonly_env (task_user_email example_task) ?rendered)"
    using smtp2 by (simp add: mail2)
  have wf: "\<not> mongo_write_fault example_env" by (simp add: example_env_def)
  have wf2: "mongo_write_fault readonly_env" by (simp add: readonly_env_def)
  have tid: "task_appointment_id example_task = ''a1''" by (simp add: example_defs)
  have doc: "lookup_appointment ''a1'' (collection example_state) = Some example_appointment"
    by (simp add: lookup_appointment_def example_state_def example_appointment_def)
  have flag: "reminderSent example_appointment = None" by (simp add: example_appointment_def)
  have changed: "(example_appointment\<lparr>reminderSent := Some True,
                    reminderSentAt := Some 8640000000\<rparr>
                 \<noteq> example_appointment) = True"
    by (simp add: example_appointment_def)
  have stamp: "to_bson (utcnow example_env) = 8640000000"
    by (simp add: to_bson_def example_env_def)
  have row: "?new\<lparr>reminder_sent := True, reminder_sent_at := Some (now example_env)\<rparr>
               = example_log ''a1'' True 8640000000000"
    "?new\<lparr>reminder_sent := True, reminder_sent_at := Some (now example_env),
           updated_at := now example_env\<rparr> = example_log ''a1'' True 8640000000000"
    "?new2\<lparr>reminder_sent := True, reminder_sent_at := Some (now readonly_env)\<rparr>
               = example_log ''a1'' True 8640000000000"
    "?new2\<lparr>reminder_sent := True, reminder_sent_at := Some (now readonly_env),
           updated_at := now readonly_env\<rparr> = example_log ''a1'' True 8640000000000"
    by (simp_all add: example_defs readonly_env_def)
  have eff: "effects example_state = []" by (simp add: example_state_def)
  from finalize_then_mark [OF h1 h2 h3 h4 h5 h6 h7] wf row(1,2) doc
  have a: "fst (send_reminder_email example_env example_task example_state) = True
     \<and> effects (snd (send_reminder_email example_env example_task example_state)) =
         [Mail example_email, LedgerSave (example_log ''a1'' True 8640000000000),
          MongoMark ''a1'' True]
     \<and> lookup_appointment ''a1''
          (collection (snd (send_reminder_email example_env example_task example_state)))
         = Some (example_appointment\<lparr>reminderSent := Some True,
                                      reminderSentAt := Some 8640000000\<rparr>)
     \<and> lookup_log ''a1''
          (reminder_logs (snd (send_reminder_email example_env example_task example_state)))
         = Some (example_log ''a1'' True 8640000000000)"
    by (auto simp add: mail tid eff changed stamp)
  from finalize_then_mark [OF k1 k2 k3 h4 k5 k6 k7] wf2 row(3,4)
  have b: "fst (send_reminder_email readonly_env example_task example_state) = True
     \<and> effects (snd (send_reminder_email readonly_env example_task example_state)) =
         [Mail example_email, LedgerSave (example_log ''a1'' True 8640000000000),
          MongoMark ''a1'' False]
     \<and> collection (snd (send_reminder_email readonly_env example_task example_state))
         = collection example_state
     \<and> lookup_log ''a1''
          (reminder_logs (snd (send_reminder_email readonly_env example_task example_state)))
         = Some (example_log ''a1'' True 8640000000000)"
    by (auto simp add: mail2 tid eff)
  from a b h1 k1 rc smtp smtp2 wf wf2 doc flag show ?thesis by simp
qed

theorem default_template_creation_idempotent_witness:
  "unique_together (email_templates (example_state\<lparr>email_templates := []\<rparr>))
   \<and> active_templates ''15min'' (email_templates (example_state\<lparr>email_templates := []\<rparr>)) = []
   \<and> (\<exists>template.
        create_default_email_template [] = Inr (template, [template])
        \<and> active_templates ''15min'' [template] = [template]
        \<and> create_default_email_template [template] = Inl IntegrityError)
   \<and> length (active_templates ''15min''
        (email_templates (snd (run_schedule example_env [0, 1, 0, 1, 0, 1, 0, 1]
           (start_config [example_task, example_task]
              (example_state\<lparr>email_templates := []\<rparr>)))))) \<le> 1"
proof -
  let ?s = "example_state\<lparr>email_templates := []\<rparr>"
  have h: "unique_together (email_templates ?s)" by (simp add: unique_together_def)
  have none: "active_templates ''15min'' (email_templates ?s) = []"
    by (simp add: active_templates_def)
  from default_template_creation_idempotent [OF h, where e = example_env
      and sched = "[0, 1, 0, 1, 0, 1, 0, 1]" and ts = "[example_task, example_task]"
      and category = "''15min''"] h none
  show ?thesis by auto
qed

theorem scan_summary_counts_queued_witness:
  "check_and_send_reminders example_env example_state =
     ([(''status'', Str ''success''), (''reminders_sent'', Num 1)], [example_task])
   \<and> length (fst (run_tasks example_env [example_task, example_task] example_state)) = 2"
proof -
  have c: "get_appointments_for_reminder example_env 15 (collection example_state)
             = [example_appointment]"
    by (simp add: get_appointments_for_reminder_def reminder_query_def timedelta_minutes_def
          to_bson_def example_env_def example_state_def example_appointment_def Let_def)
  have b: "broker_accepts example_env (task_of example_appointment)"
    by (simp add: example_env_def)
  from scan_summary_counts_queued [of example_env example_state "[example_task, example_task]"
      example_state]
  show ?thesis by (simp add: c b example_task_def)
qed

theorem reminder_type_argument_ignored_witness:
  "send_custom_reminder example_env ''a1'' ''1hour'' example_state
     = send_custom_reminder example_env ''a1'' ''1day'' example_state
   \<and> send_custom_reminder example_env ''a1'' ''1hour'' example_state = Some example_task
   \<and> (\<exists>r. lookup_log ''a1''
             (reminder_logs (snd (send_reminder_email example_env example_task example_state)))
             = Some r \<and> reminder_type r = ''15min'')"
proof -
  have h1: "db_fault example_env = None" by (simp add: example_env_def)
  have h2: "lookup_log (task_appointment_id example_task) (reminder_logs example_state) = None"
    by (simp add: example_defs)
  have tid: "task_appointment_id example_task = ''a1''" by (simp add: example_defs)
  have q: "send_custom_reminder example_env ''a1'' ''1hour'' example_state = Some example_task"
    by (simp add: send_custom_reminder_def get_appointment_by_id_def example_env_def
          example_state_def example_appointment_def example_task_def task_of_def Let_def)
  from reminder_type_argument_ignored [where e = example_env and aid = "''a1''"
      and ?rt1.0 = "''1hour''" and ?rt2.0 = "''1day''" and s = example_state
      and ?t2.0 = example_task and ?s2.0 = example_state and tpls = "[]"
      and template = undefined and tpls' = "[]"] h1 h2 q
  show ?thesis by (simp add: tid)
qed

end
